theory Spec2Isabelle
  imports Complex_Main "HOL-Library.Char_ord" "HOL-Library.List_Lexorder"
begin

section \<open>Python values used by \<open>coffeine/transfer_learning.py\<close>\<close>

text \<open>
  The module works on numpy arrays and on pandas tables whose cells hold arrays.
  An array is modelled the way numpy stores it: a dtype tag, a shape, and the
  elements in row-major order. The elements of an object-typed array are Python
  objects; the only objects that matter here are scalars and arrays. A numeric
  array holds scalars only. An array is well formed when the number of stored
  elements is the product of its shape.
\<close>

datatype py_error =
  AttributeError | IndexError | ValueError | AssertionError | TypeError | KeyError

datatype dtype = Numeric | Object

datatype 'a pyobj = PyScalar 'a | PyArray "'a ndarray"
and 'a ndarray = NDArray (dtype: dtype) (shape: "nat list") (flat: "'a pyobj list")

text \<open>\<open>a.ndim\<close> and \<open>a.shape[i]\<close>; the latter raises IndexError past the last axis.\<close>

definition ndim :: "'a ndarray \<Rightarrow> nat" where
  "ndim a = length (shape a)"

definition shape_at :: "'a ndarray \<Rightarrow> nat \<Rightarrow> py_error + nat" where
  "shape_at a i = (if i < ndim a then Inr (shape a ! i) else Inl IndexError)"

definition well_formed :: "'a ndarray \<Rightarrow> bool" where
  "well_formed a = (length (flat a) = prod_list (shape a))"

text \<open>\<open>chunk n k xs\<close> cuts the first \<open>n * k\<close> elements of \<open>xs\<close> into \<open>n\<close> blocks of \<open>k\<close>.\<close>

fun chunk :: "nat \<Rightarrow> nat \<Rightarrow> 'b list \<Rightarrow> 'b list list" where
  "chunk 0 k xs = []"
| "chunk (Suc n) k xs = take k xs # chunk n k (drop k xs)"

text \<open>
  Iterating over an array walks its first axis. A 0-d array cannot be iterated
  (TypeError). A 1-d array yields its elements (for an object array, the stored
  objects); an array of more dimensions yields its sub-arrays, of the same dtype.
\<close>

definition np_iter :: "'a ndarray \<Rightarrow> py_error + 'a pyobj list" where
  "np_iter a =
     (case shape a of
        [] \<Rightarrow> Inl TypeError
      | [n] \<Rightarrow> Inr (take n (flat a))
      | n # k # rest \<Rightarrow>
          Inr (map (\<lambda>c. PyArray (NDArray (dtype a) (k # rest) c))
                 (chunk n (prod_list (k # rest)) (flat a))))"

text \<open>\<open>np.asanyarray\<close>: an array is passed through, a scalar becomes a 0-d array.\<close>

definition asanyarray :: "'a pyobj \<Rightarrow> 'a ndarray" where
  "asanyarray obj =
     (case obj of PyScalar x \<Rightarrow> NDArray Numeric [] [PyScalar x] | PyArray a \<Rightarrow> a)"

text \<open>
  \<open>np.stack(values)\<close> (axis 0): every item of the iteration is converted to an
  array; an empty sequence is a ValueError (``need at least one array to stack''),
  items of different shapes are a ValueError (``all input arrays must have the
  same shape''); otherwise the result has one more leading axis and holds the
  items' elements one after the other. The result is numeric only if every item is.
\<close>

definition np_stack :: "'a ndarray \<Rightarrow> py_error + 'a ndarray" where
  "np_stack vs =
     (case np_iter vs of
        Inl e \<Rightarrow> Inl e
      | Inr items \<Rightarrow>
          (case map asanyarray items of
             [] \<Rightarrow> Inl ValueError
           | a0 # as \<Rightarrow>
               if list_all (\<lambda>a. shape a = shape a0) as
               then Inr (NDArray
                      (if list_all (\<lambda>a. dtype a = Numeric) (a0 # as) then Numeric else Object)
                      (length (a0 # as) # shape a0)
                      (concat (map flat (a0 # as))))
               else Inl ValueError))"

text \<open>
  \<open>values[:, 0]\<close>: the first entry along the second axis of every row. The source
  only evaluates it after \<open>values.shape[1] == 1\<close>, so the array has at least two axes.
\<close>

definition select_col0 :: "'a ndarray \<Rightarrow> 'a ndarray" where
  "select_col0 a =
     (case shape a of
        n # k # rest \<Rightarrow>
          NDArray (dtype a) (n # rest)
            (concat (map (take (prod_list rest)) (chunk n (k * prod_list rest) (flat a))))
      | _ \<Rightarrow> a)"

text \<open>\<open>out[np.newaxis, :, :]\<close>: the same elements under one more leading axis of size 1.\<close>

definition newaxis :: "'a ndarray \<Rightarrow> 'a ndarray" where
  "newaxis a = NDArray (dtype a) (1 # shape a) (flat a)"

text \<open>
  The argument \<open>X\<close> of every method is either a numpy array or a pandas DataFrame.
  A DataFrame has \<open>ndim = 2\<close> and an attribute \<open>values\<close> (its cells as an array); a
  numpy array has no attribute \<open>values\<close>.
\<close>

datatype 'a py_input = Ndarray "'a ndarray" | DataFrame "'a ndarray"

section \<open>\<open>_check_data\<close>\<close>

text \<open>
  \<^verbatim>\<open>
  def _check_data(X):
      out = None
      if X.ndim == 3:
          out = X
      elif X.values.dtype == 'object':
          values = X.values
          if values.shape[1] == 1:
              values = values[:, 0]
          out = np.stack(values)
          if out.ndim == 2:  # deal with single sample
              assert out.shape[0] == out.shape[1]
              out = out[np.newaxis, :, :]
      return out
  \<close>
  The result is \<open>Inr None\<close> when the function returns Python's \<open>None\<close>. For a numpy
  array that is not 3-d, reading \<open>X.values\<close> raises AttributeError; for a DataFrame
  the first test is false, since its \<open>ndim\<close> is 2.
\<close>

definition check_data :: "'a py_input \<Rightarrow> py_error + 'a ndarray option" where
  "check_data X =
     (case X of
        Ndarray a \<Rightarrow> if ndim a = 3 then Inr (Some a) else Inl AttributeError
      | DataFrame v \<Rightarrow>
          if dtype v = Object then
            (case shape_at v 1 of
               Inl e \<Rightarrow> Inl e
             | Inr k \<Rightarrow>
                 (case np_stack (if k = 1 then select_col0 v else v) of
                    Inl e \<Rightarrow> Inl e
                  | Inr out \<Rightarrow>
                      if ndim out = 2 then
                        (if shape out ! 0 = shape out ! 1
                         then Inr (Some (newaxis out))
                         else Inl AssertionError)
                      else Inr (Some out)))
          else Inr None)"

text \<open>
  The array that \<open>np.stack\<close> returns inside \<open>_check_data\<close> for an object-typed table,
  named so that statements about the single-sample branch can refer to it.
\<close>

definition stacked :: "'a ndarray \<Rightarrow> py_error + 'a ndarray" where
  "stacked v =
     (case shape_at v 1 of
        Inl e \<Rightarrow> Inl e
      | Inr k \<Rightarrow> np_stack (if k = 1 then select_col0 v else v))"

section \<open>The collaborator: domain encoding and the two estimators\<close>

text \<open>
  The module imports \<open>encode_domains\<close>, \<open>TLCenter\<close> and \<open>TLStretch\<close> from the
  pyriemann library; their code is not part of this repository. They are modelled
  here from the contract the specification gives them (sections 4.2 to 4.4 and 6),
  on top of four numerical kernels that stay parameters of the whole development:
  the mean of a set of matrices under a metric, the congruence that re-centers one
  matrix by a mean, the squared distance of two matrices under a metric, and the
  rescaling of one matrix about a reference point by a dispersion.
  Labels and domain tags are represented by their \<open>str()\<close> rendering, which is all
  the encoding reads; the placeholder label \<open>0\<close> is the string \<open>''0''\<close>.
\<close>

record geometry =
  mean_covariance :: "string \<Rightarrow> real ndarray list \<Rightarrow> py_error + real ndarray"
  whiten :: "string \<Rightarrow> real ndarray \<Rightarrow> real ndarray \<Rightarrow> py_error + real ndarray"
  distance_sq :: "string \<Rightarrow> real ndarray \<Rightarrow> real ndarray \<Rightarrow> py_error + real"
  stretch :: "string \<Rightarrow> real ndarray \<Rightarrow> real \<Rightarrow> real ndarray \<Rightarrow> py_error + real ndarray"

text \<open>
  Modelled from the spec: \<open>encode_domains(X, y, domain_tags) -> (X, combined_keys)\<close>,
  missing from the repository (pyriemann). The combined key of a sample pairs its
  domain tag and its label, \<open>tag/label\<close>; tags and labels are paired position by
  position, as far as both sequences reach. It accepts any labels, placeholders
  included, and hands \<open>X\<close> back untouched.
\<close>

definition encode_domains :: "'x \<Rightarrow> string list \<Rightarrow> string list \<Rightarrow> 'x \<times> string list" where
  "encode_domains X y domain = (X, map (\<lambda>(d, l). d @ ''/'' @ l) (zip domain y))"

text \<open>\<open>s.split('/')\<close>: the pieces of \<open>s\<close> between slashes; never empty.\<close>

fun split_slash :: "string \<Rightarrow> string list" where
  "split_slash [] = [[]]"
| "split_slash (c # cs) =
     (if c = CHR ''/'' then [] # split_slash cs
      else (case split_slash cs of p # ps \<Rightarrow> (c # p) # ps | [] \<Rightarrow> [[c]]))"

text \<open>
  Modelled from the spec: the estimators group ``by domain (decoded from combined
  keys)''; the decoding is missing from the repository (pyriemann). The domain of a
  key is the piece before its last slash-separated piece; a key without a slash has
  none (IndexError).
\<close>

definition decode_domain :: "string \<Rightarrow> py_error + string" where
  "decode_domain k =
     (let ps = split_slash k in
      if length ps < 2 then Inl IndexError else Inr (ps ! (length ps - 2)))"

text \<open>Running a fallible step over a list, left to right; the first error ends it.\<close>

fun mapM :: "('b \<Rightarrow> 'e + 'c) \<Rightarrow> 'b list \<Rightarrow> 'e + 'c list" where
  "mapM f [] = Inr []"
| "mapM f (x # xs) =
     (case f x of
        Inl e \<Rightarrow> Inl e
      | Inr y \<Rightarrow> (case mapM f xs of Inl e \<Rightarrow> Inl e | Inr ys \<Rightarrow> Inr (y # ys)))"

definition decode_domains :: "string list \<Rightarrow> py_error + string list" where
  "decode_domains y_enc = mapM decode_domain y_enc"

text \<open>\<open>np.unique\<close>: the distinct entries in ascending order.\<close>

definition np_unique :: "string list \<Rightarrow> string list" where
  "np_unique ds = sort (remdups ds)"

text \<open>
  The matrices of a stack: its sub-arrays along the first axis. \<open>X[idx]\<close> with a
  boolean mask selects the rows where the mask holds; it fails on \<open>None\<close>
  (TypeError), on a 0-d array and on a mask of the wrong length (IndexError).
\<close>

definition rows :: "'a ndarray \<Rightarrow> 'a ndarray list" where
  "rows a =
     (case shape a of
        [] \<Rightarrow> []
      | n # rest \<Rightarrow> map (NDArray (dtype a) rest) (chunk n (prod_list rest) (flat a)))"

definition mask_rows :: "'a ndarray option \<Rightarrow> bool list \<Rightarrow> py_error + 'a ndarray list" where
  "mask_rows X idx =
     (case X of
        None \<Rightarrow> Inl TypeError
      | Some a \<Rightarrow>
          (case shape a of
             [] \<Rightarrow> Inl IndexError
           | n # rest \<Rightarrow>
               if length idx = n then Inr (map fst (filter snd (zip (rows a) idx)))
               else Inl IndexError))"

text \<open>
  \<open>out[idx] = f(X[idx])\<close> for a transformation \<open>f\<close> that works matrix by matrix: the
  rows of \<open>out\<close> selected by the mask are replaced by the images of the same rows
  of \<open>X\<close>, the others are kept. An image of another shape or size than the slot it
  is assigned to is a ValueError.
\<close>

fun assign_masked ::
  "('r ndarray \<Rightarrow> py_error + 'r ndarray) \<Rightarrow> bool list \<Rightarrow> 'r ndarray list \<Rightarrow> 'r ndarray list
     \<Rightarrow> py_error + 'r ndarray list" where
  "assign_masked f (t # idx) (r # rs) (b # base) =
     (if t then
        (case f r of
           Inl e \<Rightarrow> Inl e
         | Inr r' \<Rightarrow>
             if shape r' = shape b \<and> length (flat r') = length (flat b) then
               (case assign_masked f idx rs base of
                  Inl e \<Rightarrow> Inl e
                | Inr out \<Rightarrow> Inr (r' # out))
             else Inl ValueError)
      else
        (case assign_masked f idx rs base of
           Inl e \<Rightarrow> Inl e
         | Inr out \<Rightarrow> Inr (b # out)))"
| "assign_masked f idx rs base = Inr base"

text \<open>\<open>np.zeros_like\<close> of one row, and a stack of the shape of \<open>a\<close> from given rows.\<close>

definition zeros_like :: "real ndarray \<Rightarrow> real ndarray" where
  "zeros_like r = NDArray (dtype r) (shape r) (replicate (length (flat r)) (PyScalar 0))"

definition restack :: "'a ndarray \<Rightarrow> 'a ndarray list \<Rightarrow> 'a ndarray" where
  "restack a rs = NDArray (dtype a) (shape a) (concat (map flat rs))"

text \<open>A dictionary read \<open>d[k]\<close>: KeyError when the key is absent.\<close>

definition lookup :: "(string \<times> 'v) list \<Rightarrow> string \<Rightarrow> py_error + 'v" where
  "lookup d k = (case map_of d k of None \<Rightarrow> Inl KeyError | Some v \<Rightarrow> Inr v)"

text \<open>An attribute that is set only by fitting: AttributeError before.\<close>

definition attr :: "'v option \<Rightarrow> py_error + 'v" where
  "attr x = (case x of None \<Rightarrow> Inl AttributeError | Some v \<Rightarrow> Inr v)"

subsection \<open>The mean estimator\<close>

text \<open>
  Modelled from the spec: the ``Riemannian-mean estimator with configurable
  metric'', missing from the repository (pyriemann's \<open>TLCenter\<close>). Its \<open>fit(X,
  combined_keys)\<close> ``groups by domain (decoded from combined keys), computes one
  mean per domain, exposes the mapping domain to mean'' (attribute \<open>recenter_\<close>, here \<open>tlc_recenter\<close>);
  \<open>fit_transform\<close> ``additionally re-centers in one pass'', each domain's matrices
  by that domain's own mean (section 4.3).
\<close>

record TLCenter =
  tlc_target_domain :: string
  tlc_metric :: string
  tlc_recenter :: "(string \<times> real ndarray) list option"

definition new_TLCenter :: "string \<Rightarrow> string \<Rightarrow> TLCenter" where
  "new_TLCenter target m = \<lparr>tlc_target_domain = target, tlc_metric = m, tlc_recenter = None\<rparr>"

text \<open>
  Modelled from the spec: the step of \<open>TLCenter.fit\<close> for one domain, missing from the
  repository: ``for each distinct domain present, compute its Riemannian mean over
  that domain's matrices only''.
\<close>

definition domain_mean ::
  "geometry \<Rightarrow> string \<Rightarrow> real ndarray option \<Rightarrow> string list \<Rightarrow> string
     \<Rightarrow> py_error + string \<times> real ndarray" where
  "domain_mean G m X doms d =
     (case mask_rows X (map (\<lambda>x. x = d) doms) of
        Inl e \<Rightarrow> Inl e
      | Inr sub \<Rightarrow>
          (case mean_covariance G m sub of Inl e \<Rightarrow> Inl e | Inr M \<Rightarrow> Inr (d, M)))"

text \<open>
  Modelled from the spec: \<open>TLCenter.fit\<close>, missing from the repository; the domains
  are visited in the order of \<open>np.unique\<close> and the mapping domain to mean is stored.
\<close>

definition TLCenter_fit ::
  "geometry \<Rightarrow> TLCenter \<Rightarrow> real ndarray option \<Rightarrow> string list \<Rightarrow> py_error + TLCenter" where
  "TLCenter_fit G self X y_enc =
     (case decode_domains y_enc of
        Inl e \<Rightarrow> Inl e
      | Inr doms \<Rightarrow>
          (case mapM (domain_mean G (tlc_metric self) X doms) (np_unique doms) of
             Inl e \<Rightarrow> Inl e
           | Inr means \<Rightarrow> Inr (self\<lparr>tlc_recenter := Some means\<rparr>)))"

text \<open>
  Modelled from the spec: the re-centering pass of \<open>TLCenter.fit_transform\<close>, missing
  from the repository: ``re-center each domain's own matrices to identity using
  that domain's own mean''. The result starts as zeros of the shape of \<open>X\<close>; for every
  domain, the rows of that domain are assigned their images.
\<close>

fun recenter_loop ::
  "geometry \<Rightarrow> string \<Rightarrow> (string \<times> real ndarray) list \<Rightarrow> real ndarray option \<Rightarrow> string list
     \<Rightarrow> string list \<Rightarrow> real ndarray list \<Rightarrow> py_error + real ndarray list" where
  "recenter_loop G m means X doms [] X_rct = Inr X_rct"
| "recenter_loop G m means X doms (d # ds) X_rct =
     (case mask_rows X (map (\<lambda>x. x = d) doms) of
        Inl e \<Rightarrow> Inl e
      | Inr sub \<Rightarrow>
          (case lookup means d of
             Inl e \<Rightarrow> Inl e
           | Inr M \<Rightarrow>
               (case assign_masked (whiten G m M) (map (\<lambda>x. x = d) doms)
                       (case X of None \<Rightarrow> [] | Some a \<Rightarrow> rows a) X_rct of
                  Inl e \<Rightarrow> Inl e
                | Inr X_rct' \<Rightarrow> recenter_loop G m means X doms ds X_rct')))"

text \<open>
  Modelled from the spec: \<open>TLCenter.fit_transform\<close>, missing from the repository: fit,
  then the re-centering pass with the means just fitted. A stack that is \<open>None\<close>
  cannot be re-centered (TypeError).
\<close>

definition TLCenter_fit_transform ::
  "geometry \<Rightarrow> TLCenter \<Rightarrow> real ndarray option \<Rightarrow> string list
     \<Rightarrow> py_error + real ndarray \<times> TLCenter" where
  "TLCenter_fit_transform G self X y_enc =
     (case TLCenter_fit G self X y_enc of
        Inl e \<Rightarrow> Inl e
      | Inr self' \<Rightarrow>
          (case decode_domains y_enc of
             Inl e \<Rightarrow> Inl e
           | Inr doms \<Rightarrow>
               (case attr (tlc_recenter self') of
                  Inl e \<Rightarrow> Inl e
                | Inr means \<Rightarrow>
                    (case X of
                       None \<Rightarrow> Inl TypeError
                     | Some a \<Rightarrow>
                         (case recenter_loop G (tlc_metric self') means X doms (np_unique doms)
                                 (map zeros_like (rows a)) of
                            Inl e \<Rightarrow> Inl e
                          | Inr X_rct \<Rightarrow> Inr (restack a X_rct, self'))))))"

subsection \<open>The dispersion estimator\<close>

text \<open>
  Modelled from the spec: the ``dispersion/stretch estimator with configurable
  metric and a flag indicating whether input is already centered'', missing from
  the repository (pyriemann's \<open>TLStretch\<close>). Its \<open>fit(X, combined_keys)\<close> ``computes
  one dispersion scalar per domain'': the average squared distance of the domain's
  matrices to the domain's reference point, which is the identity when the flag
  says the input is centered and the domain's mean, computed from the domain's
  matrices, when it does not. \<open>transform(X)\<close> ``applies rescaling using the
  last-fitted dispersions'' of the target domain; \<open>fit_transform\<close> ``does both using
  true grouping''.
\<close>

record TLStretch =
  tls_target_domain :: string
  tls_centered_data :: bool
  tls_metric :: string
  tls_means :: "(string \<times> real ndarray) list option"
  tls_dispersions :: "(string \<times> real) list option"

definition new_TLStretch :: "string \<Rightarrow> bool \<Rightarrow> string \<Rightarrow> TLStretch" where
  "new_TLStretch target centered m =
     \<lparr>tls_target_domain = target, tls_centered_data = centered, tls_metric = m,
      tls_means = None, tls_dispersions = None\<rparr>"

text \<open>\<open>np.eye(c)\<close>, and the number of channels \<open>c\<close> of a stack of shape \<open>(n, c, c)\<close>.\<close>

definition eye :: "nat \<Rightarrow> real ndarray" where
  "eye c =
     NDArray Numeric [c, c]
       (concat (map (\<lambda>i. map (\<lambda>j. PyScalar (if i = j then 1 else 0)) [0..<c]) [0..<c]))"

definition n_channels :: "real ndarray option \<Rightarrow> py_error + nat" where
  "n_channels X = (case X of None \<Rightarrow> Inl TypeError | Some a \<Rightarrow> shape_at a 2)"

definition average :: "real list \<Rightarrow> real" where
  "average xs = sum_list xs / real (length xs)"

text \<open>
  Modelled from the spec: the step of \<open>TLStretch.fit\<close> for one domain, missing from
  the repository: the reference point of the domain (the identity if the data are
  flagged as centered, the domain's mean otherwise) and the average squared
  distance of the domain's matrices to it.
\<close>

definition domain_dispersion ::
  "geometry \<Rightarrow> bool \<Rightarrow> string \<Rightarrow> real ndarray option \<Rightarrow> string list \<Rightarrow> string
     \<Rightarrow> py_error + string \<times> real ndarray \<times> real" where
  "domain_dispersion G centered m X doms d =
     (case mask_rows X (map (\<lambda>x. x = d) doms) of
        Inl e \<Rightarrow> Inl e
      | Inr sub \<Rightarrow>
          (case (if centered
                 then (case n_channels X of Inl e \<Rightarrow> Inl e | Inr c \<Rightarrow> Inr (eye c))
                 else mean_covariance G m sub) of
             Inl e \<Rightarrow> Inl e
           | Inr M \<Rightarrow>
               (case mapM (\<lambda>S. distance_sq G m S M) sub of
                  Inl e \<Rightarrow> Inl e
                | Inr dists \<Rightarrow> Inr (d, M, average dists))))"

text \<open>
  Modelled from the spec: \<open>TLStretch.fit\<close>, missing from the repository; it stores the
  reference point and the dispersion of every domain.
\<close>

definition TLStretch_fit ::
  "geometry \<Rightarrow> TLStretch \<Rightarrow> real ndarray option \<Rightarrow> string list \<Rightarrow> py_error + TLStretch" where
  "TLStretch_fit G self X y_enc =
     (case decode_domains y_enc of
        Inl e \<Rightarrow> Inl e
      | Inr doms \<Rightarrow>
          (case mapM (domain_dispersion G (tls_centered_data self) (tls_metric self) X doms)
                  (np_unique doms) of
             Inl e \<Rightarrow> Inl e
           | Inr stats \<Rightarrow>
               Inr (self\<lparr>tls_means := Some (map (\<lambda>(d, M, v). (d, M)) stats),
                          tls_dispersions := Some (map (\<lambda>(d, M, v). (d, v)) stats)\<rparr>)))"

text \<open>
  Modelled from the spec: \<open>TLStretch.transform\<close>, missing from the repository:
  ``applies rescaling using the last-fitted dispersions'', those of the target
  domain, to every matrix of \<open>X\<close>. Without an entry for the target domain the
  dictionary read fails (KeyError).
\<close>

definition TLStretch_transform ::
  "geometry \<Rightarrow> TLStretch \<Rightarrow> real ndarray option \<Rightarrow> py_error + real ndarray" where
  "TLStretch_transform G self X =
     (case attr (tls_means self) of
        Inl e \<Rightarrow> Inl e
      | Inr means \<Rightarrow>
          (case lookup means (tls_target_domain self) of
             Inl e \<Rightarrow> Inl e
           | Inr M \<Rightarrow>
               (case attr (tls_dispersions self) of
                  Inl e \<Rightarrow> Inl e
                | Inr disps \<Rightarrow>
                    (case lookup disps (tls_target_domain self) of
                       Inl e \<Rightarrow> Inl e
                     | Inr v \<Rightarrow>
                         (case X of
                            None \<Rightarrow> Inl TypeError
                          | Some a \<Rightarrow>
                              (case mapM (stretch G (tls_metric self) M v) (rows a) of
                                 Inl e \<Rightarrow> Inl e
                               | Inr out \<Rightarrow> Inr (restack a out)))))))"

text \<open>
  Modelled from the spec: the rescaling pass of \<open>TLStretch.fit_transform\<close>, missing
  from the repository: ``rescale each domain's matrices by its own dispersion''.
\<close>

fun rescale_loop ::
  "geometry \<Rightarrow> string \<Rightarrow> (string \<times> real ndarray) list \<Rightarrow> (string \<times> real) list
     \<Rightarrow> real ndarray option \<Rightarrow> string list \<Rightarrow> string list \<Rightarrow> real ndarray list
     \<Rightarrow> py_error + real ndarray list" where
  "rescale_loop G m means disps X doms [] X_str = Inr X_str"
| "rescale_loop G m means disps X doms (d # ds) X_str =
     (case mask_rows X (map (\<lambda>x. x = d) doms) of
        Inl e \<Rightarrow> Inl e
      | Inr sub \<Rightarrow>
          (case lookup means d of
             Inl e \<Rightarrow> Inl e
           | Inr M \<Rightarrow>
               (case lookup disps d of
                  Inl e \<Rightarrow> Inl e
                | Inr v \<Rightarrow>
                    (case assign_masked (stretch G m M v) (map (\<lambda>x. x = d) doms)
                            (case X of None \<Rightarrow> [] | Some a \<Rightarrow> rows a) X_str of
                       Inl e \<Rightarrow> Inl e
                     | Inr X_str' \<Rightarrow> rescale_loop G m means disps X doms ds X_str'))))"

text \<open>
  Modelled from the spec: \<open>TLStretch.fit_transform\<close>, missing from the repository: fit,
  then the rescaling pass with the statistics just fitted.
\<close>

definition TLStretch_fit_transform ::
  "geometry \<Rightarrow> TLStretch \<Rightarrow> real ndarray option \<Rightarrow> string list
     \<Rightarrow> py_error + real ndarray \<times> TLStretch" where
  "TLStretch_fit_transform G self X y_enc =
     (case TLStretch_fit G self X y_enc of
        Inl e \<Rightarrow> Inl e
      | Inr self' \<Rightarrow>
          (case decode_domains y_enc of
             Inl e \<Rightarrow> Inl e
           | Inr doms \<Rightarrow>
               (case attr (tls_means self') of
                  Inl e \<Rightarrow> Inl e
                | Inr means \<Rightarrow>
                    (case attr (tls_dispersions self') of
                       Inl e \<Rightarrow> Inl e
                     | Inr disps \<Rightarrow>
                         (case X of
                            None \<Rightarrow> Inl TypeError
                          | Some a \<Rightarrow>
                              (case rescale_loop G (tls_metric self') means disps X doms
                                      (np_unique doms) (map zeros_like (rows a)) of
                                 Inl e \<Rightarrow> Inl e
                               | Inr X_str \<Rightarrow> Inr (restack a X_str, self')))))))"

section \<open>The two transformers of the module\<close>

text \<open>
  Both classes are constructed from \<open>domains\<close> and \<open>metric\<close>, which the constructor
  stores as they are. The attributes that Python spells with a trailing underscore
  (\<open>re_center_\<close>, \<open>means_\<close>, \<open>re_scale_\<close>, \<open>dispersions_\<close>) carry a prime here, since
  the name of a constant cannot end in an underscore; they do not exist before the
  first call that assigns them (\<open>None\<close>). A method takes the instance and returns
  the instance as the call leaves it, next to the value it returns; a call that
  raises returns the error only.
\<close>

record estimator =
  domains :: "string list"
  metric :: string

record ReCenter = estimator +
  re_center' :: "TLCenter option"
  means' :: "(string \<times> real ndarray) list option"

record ReScale = estimator +
  re_scale' :: "TLStretch option"
  dispersions' :: "(string \<times> real) list option"

text \<open>\<open>X.shape[0]\<close> on the result of \<open>_check_data\<close>; \<open>None\<close> has no attribute \<open>shape\<close>.\<close>

definition n_samples :: "'a ndarray option \<Rightarrow> py_error + nat" where
  "n_samples X = (case X of None \<Rightarrow> Inl AttributeError | Some a \<Rightarrow> shape_at a 0)"

subsection \<open>\<open>ReCenter\<close>\<close>

text \<open>
  \<^verbatim>\<open>
  def fit(self, X, y):
      X = _check_data(X)
      _, y_enc = encode_domains(X, y, self.domains)
      self.re_center_ = TLCenter('target_domain', metric=self.metric)
      self.means_ = self.re_center_.fit(X, y_enc).recenter_
      return self
  \<close>
\<close>

definition ReCenter_fit ::
  "geometry \<Rightarrow> ReCenter \<Rightarrow> real py_input \<Rightarrow> string list \<Rightarrow> py_error + ReCenter" where
  "ReCenter_fit G self X y =
     (case check_data X of
        Inl e \<Rightarrow> Inl e
      | Inr X' \<Rightarrow>
          (case encode_domains X' y (domains self) of
             (_, y_enc) \<Rightarrow>
               (case TLCenter_fit G (new_TLCenter ''target_domain'' (metric self)) X' y_enc of
                  Inl e \<Rightarrow> Inl e
                | Inr rc \<Rightarrow> Inr (self\<lparr>re_center' := Some rc, means' := tlc_recenter rc\<rparr>))))"

text \<open>
  \<^verbatim>\<open>
  def transform(self, X, y=None):
      X = _check_data(X)
      n_sample = X.shape[0]
      _, y_enc = encode_domains(X, [0]*n_sample, ['target_domain']*n_sample)
      self.re_center_ = TLCenter('target_domain', metric=self.metric)
      X_rct = self.re_center_.fit_transform(X, y_enc)
      return X_rct
  \<close>
\<close>

definition ReCenter_transform ::
  "geometry \<Rightarrow> ReCenter \<Rightarrow> real py_input \<Rightarrow> string list option
     \<Rightarrow> py_error + real ndarray \<times> ReCenter" where
  "ReCenter_transform G self X y =
     (case check_data X of
        Inl e \<Rightarrow> Inl e
      | Inr X' \<Rightarrow>
          (case n_samples X' of
             Inl e \<Rightarrow> Inl e
           | Inr n_sample \<Rightarrow>
               (case encode_domains X' (replicate n_sample ''0'')
                       (replicate n_sample ''target_domain'') of
                  (_, y_enc) \<Rightarrow>
                    (case TLCenter_fit_transform G
                            (new_TLCenter ''target_domain'' (metric self)) X' y_enc of
                       Inl e \<Rightarrow> Inl e
                     | Inr (X_rct, rc) \<Rightarrow> Inr (X_rct, self\<lparr>re_center' := Some rc\<rparr>)))))"

text \<open>
  \<^verbatim>\<open>
  def fit_transform(self, X, y):
      X = _check_data(X)
      _, y_enc = encode_domains(X, y, self.domains)
      self.re_center_ = TLCenter('target_domain', metric=self.metric)
      X_rct = self.re_center_.fit_transform(X, y_enc)
      return X_rct
  \<close>
\<close>

definition ReCenter_fit_transform ::
  "geometry \<Rightarrow> ReCenter \<Rightarrow> real py_input \<Rightarrow> string list
     \<Rightarrow> py_error + real ndarray \<times> ReCenter" where
  "ReCenter_fit_transform G self X y =
     (case check_data X of
        Inl e \<Rightarrow> Inl e
      | Inr X' \<Rightarrow>
          (case encode_domains X' y (domains self) of
             (_, y_enc) \<Rightarrow>
               (case TLCenter_fit_transform G
                       (new_TLCenter ''target_domain'' (metric self)) X' y_enc of
                  Inl e \<Rightarrow> Inl e
                | Inr (X_rct, rc) \<Rightarrow> Inr (X_rct, self\<lparr>re_center' := Some rc\<rparr>))))"

subsection \<open>\<open>ReScale\<close>\<close>

text \<open>
  \<^verbatim>\<open>
  def fit(self, X, y):
      X = _check_data(X)
      _, y_enc = encode_domains(X, y, self.domains)
      self.re_scale_ = TLStretch('target_domain',
                                 centered_data=False,
                                 metric=self.metric)
      self.dispersions_ = self.re_scale_.fit(X, y_enc).dispersions_
      return self
  \<close>
\<close>

definition ReScale_fit ::
  "geometry \<Rightarrow> ReScale \<Rightarrow> real py_input \<Rightarrow> string list \<Rightarrow> py_error + ReScale" where
  "ReScale_fit G self X y =
     (case check_data X of
        Inl e \<Rightarrow> Inl e
      | Inr X' \<Rightarrow>
          (case encode_domains X' y (domains self) of
             (_, y_enc) \<Rightarrow>
               (case TLStretch_fit G (new_TLStretch ''target_domain'' False (metric self))
                       X' y_enc of
                  Inl e \<Rightarrow> Inl e
                | Inr rs \<Rightarrow>
                    Inr (self\<lparr>re_scale' := Some rs, dispersions' := tls_dispersions rs\<rparr>))))"

text \<open>
  \<^verbatim>\<open>
  def transform(self, X, y=None):
      X = _check_data(X)
      n_sample = X.shape[0]
      _, y_enc = encode_domains(X, [0]*n_sample, ['target_domain']*n_sample)
      self.re_scale_ = TLStretch('target_domain',
                                 centered_data=False,
                                 metric=self.metric)
      self.re_scale_.fit(X, y_enc)
      X_str = self.re_scale_.transform(X)
      return X_str
  \<close>
\<close>

definition ReScale_transform ::
  "geometry \<Rightarrow> ReScale \<Rightarrow> real py_input \<Rightarrow> string list option
     \<Rightarrow> py_error + real ndarray \<times> ReScale" where
  "ReScale_transform G self X y =
     (case check_data X of
        Inl e \<Rightarrow> Inl e
      | Inr X' \<Rightarrow>
          (case n_samples X' of
             Inl e \<Rightarrow> Inl e
           | Inr n_sample \<Rightarrow>
               (case encode_domains X' (replicate n_sample ''0'')
                       (replicate n_sample ''target_domain'') of
                  (_, y_enc) \<Rightarrow>
                    (case TLStretch_fit G
                            (new_TLStretch ''target_domain'' False (metric self)) X' y_enc of
                       Inl e \<Rightarrow> Inl e
                     | Inr rs \<Rightarrow>
                         (case TLStretch_transform G rs X' of
                            Inl e \<Rightarrow> Inl e
                          | Inr X_str \<Rightarrow> Inr (X_str, self\<lparr>re_scale' := Some rs\<rparr>))))))"

text \<open>
  \<^verbatim>\<open>
  def fit_transform(self, X, y):
      X = _check_data(X)
      _, y_enc = encode_domains(X, y, self.domains)
      self.re_scale_ = TLStretch('target_domain',
                                 centered_data=False,
                                 metric=self.metric)
      X_str = self.re_scale_.fit_transform(X, y_enc)
      return X_str
  \<close>
\<close>

definition ReScale_fit_transform ::
  "geometry \<Rightarrow> ReScale \<Rightarrow> real py_input \<Rightarrow> string list
     \<Rightarrow> py_error + real ndarray \<times> ReScale" where
  "ReScale_fit_transform G self X y =
     (case check_data X of
        Inl e \<Rightarrow> Inl e
      | Inr X' \<Rightarrow>
          (case encode_domains X' y (domains self) of
             (_, y_enc) \<Rightarrow>
               (case TLStretch_fit_transform G
                       (new_TLStretch ''target_domain'' False (metric self)) X' y_enc of
                  Inl e \<Rightarrow> Inl e
                | Inr (X_str, rs) \<Rightarrow> Inr (X_str, self\<lparr>re_scale' := Some rs\<rparr>))))"

section \<open>What the specification says the calls compute\<close>

text \<open>
  The definitions of this section follow the words of the specification, not the
  code; the theorems below compare the code with them.

  ``Compute the mean of this synthetic domain from X itself; re-center X's matrices
  to put that mean at the identity'' (section 4.3, transform): one mean over all
  matrices of the stack, and every matrix whitened by it. A whitened matrix takes
  the place of the matrix it comes from, so it must have its shape and size.
\<close>

definition whiten_checked ::
  "geometry \<Rightarrow> string \<Rightarrow> real ndarray \<Rightarrow> real ndarray \<Rightarrow> py_error + real ndarray" where
  "whiten_checked G m M S =
     (case whiten G m M S of
        Inl e \<Rightarrow> Inl e
      | Inr R \<Rightarrow>
          if shape R = shape S \<and> length (flat R) = length (flat S) then Inr R
          else Inl ValueError)"

definition recenter_as_one_domain ::
  "geometry \<Rightarrow> string \<Rightarrow> real ndarray \<Rightarrow> py_error + real ndarray" where
  "recenter_as_one_domain G m a =
     (case shape a of
        [] \<Rightarrow> Inl IndexError
      | n # rest \<Rightarrow>
          if n = 0 then Inr (restack a [])
          else
            (case mean_covariance G m (rows a) of
               Inl e \<Rightarrow> Inl e
             | Inr M \<Rightarrow>
                 (case mapM (whiten_checked G m M) (rows a) of
                    Inl e \<Rightarrow> Inl e
                  | Inr out \<Rightarrow> Inr (restack a out))))"

text \<open>
  ``Average squared geodesic distance'' of a set of matrices to a reference point
  (section 3), with the two reference points the specification speaks of: the
  mean of the set, and the identity.
\<close>

definition dispersion_about ::
  "geometry \<Rightarrow> string \<Rightarrow> real ndarray \<Rightarrow> real ndarray list \<Rightarrow> py_error + real" where
  "dispersion_about G m M sub =
     (case mapM (\<lambda>S. distance_sq G m S M) sub of
        Inl e \<Rightarrow> Inl e
      | Inr dists \<Rightarrow> Inr (average dists))"

definition dispersion_about_mean ::
  "geometry \<Rightarrow> string \<Rightarrow> real ndarray list \<Rightarrow> py_error + real" where
  "dispersion_about_mean G m sub =
     (case mean_covariance G m sub of
        Inl e \<Rightarrow> Inl e
      | Inr M \<Rightarrow> dispersion_about G m M sub)"

definition dispersion_about_identity ::
  "geometry \<Rightarrow> string \<Rightarrow> nat \<Rightarrow> real ndarray list \<Rightarrow> py_error + real" where
  "dispersion_about_identity G m c sub = dispersion_about G m (eye c) sub"

text \<open>
  ``Treat all samples as the synthetic target domain; fit a dispersion estimate
  from X itself; then rescale X by that just-fitted dispersion'' (section 4.4,
  transform). A stack without matrices has no target-domain dispersion to apply
  (KeyError).
\<close>

definition rescale_as_one_domain ::
  "geometry \<Rightarrow> string \<Rightarrow> real ndarray \<Rightarrow> py_error + real ndarray" where
  "rescale_as_one_domain G m a =
     (case shape a of
        [] \<Rightarrow> Inl IndexError
      | n # rest \<Rightarrow>
          if n = 0 then Inl KeyError
          else
            (case mean_covariance G m (rows a) of
               Inl e \<Rightarrow> Inl e
             | Inr M \<Rightarrow>
                 (case dispersion_about G m M (rows a) of
                    Inl e \<Rightarrow> Inl e
                  | Inr v \<Rightarrow>
                      (case mapM (stretch G m M v) (rows a) of
                         Inl e \<Rightarrow> Inl e
                       | Inr out \<Rightarrow> Inr (restack a out)))))"

text \<open>The value a call returns, without the instance it leaves behind.\<close>

definition returned :: "'e + 'r \<times> 's \<Rightarrow> 'e + 'r" where
  "returned r = (case r of Inl e \<Rightarrow> Inl e | Inr (x, s) \<Rightarrow> Inr x)"

section \<open>An example geometry: one channel\<close>

text \<open>
  For matrices of shape \<open>(1, 1)\<close> the kernels have closed forms. A symmetric
  positive-definite 1 x 1 matrix is a positive number \<open>x\<close>. Under the Euclidean
  metric the mean is the arithmetic mean and the squared distance is \<open>(x - y)\<^sup>2\<close>;
  under the affine-invariant metric the mean is the geometric mean and the squared
  distance is \<open>(ln (x / y))\<^sup>2\<close>. Whitening \<open>x\<close> by a mean \<open>\<mu>\<close> gives \<open>x / \<mu>\<close>; stretching
  \<open>x\<close> about \<open>\<mu>\<close> by a dispersion \<open>v\<close> gives \<open>\<mu> (x / \<mu>)\<^sup>p\<close> with \<open>p = 1 / sqrt v\<close>.
  The example covers nothing else: on any other matrix, on an empty set, on a
  dispersion that is not positive and on any other metric its kernels report
  ValueError.
\<close>

definition mat1 :: "real \<Rightarrow> real ndarray" where
  "mat1 x = NDArray Numeric [1, 1] [PyScalar x]"

definition entry1 :: "real ndarray \<Rightarrow> real option" where
  "entry1 a =
     (if dtype a = Numeric \<and> shape a = [1, 1] then
        (case flat a of [PyScalar x] \<Rightarrow> if 0 < x then Some x else None | _ \<Rightarrow> None)
      else None)"

definition scalar_mean :: "string \<Rightarrow> real list \<Rightarrow> py_error + real" where
  "scalar_mean m xs =
     (if xs = [] then Inl ValueError
      else if m = ''euclid'' then Inr (average xs)
      else if m = ''riemann'' then Inr (exp (average (map ln xs)))
      else Inl ValueError)"

definition scalar_distance_sq :: "string \<Rightarrow> real \<Rightarrow> real \<Rightarrow> py_error + real" where
  "scalar_distance_sq m x y =
     (if m = ''euclid'' then Inr ((x - y)\<^sup>2)
      else if m = ''riemann'' then Inr ((ln (x / y))\<^sup>2)
      else Inl ValueError)"

definition geometry_1x1 :: geometry where
  "geometry_1x1 =
     \<lparr>mean_covariance = (\<lambda>m sub.
         case those (map entry1 sub) of
           None \<Rightarrow> Inl ValueError
         | Some xs \<Rightarrow>
             (case scalar_mean m xs of Inl e \<Rightarrow> Inl e | Inr \<mu> \<Rightarrow> Inr (mat1 \<mu>))),
      whiten = (\<lambda>m M S.
         case entry1 M of
           None \<Rightarrow> Inl ValueError
         | Some \<mu> \<Rightarrow>
             (case entry1 S of None \<Rightarrow> Inl ValueError | Some x \<Rightarrow> Inr (mat1 (x / \<mu>)))),
      distance_sq = (\<lambda>m A B.
         case entry1 A of
           None \<Rightarrow> Inl ValueError
         | Some x \<Rightarrow>
             (case entry1 B of None \<Rightarrow> Inl ValueError | Some y \<Rightarrow> scalar_distance_sq m x y)),
      stretch = (\<lambda>m M v S.
         case entry1 M of
           None \<Rightarrow> Inl ValueError
         | Some \<mu> \<Rightarrow>
             (case entry1 S of
                None \<Rightarrow> Inl ValueError
              | Some x \<Rightarrow>
                  if 0 < v then Inr (mat1 (\<mu> * (x / \<mu>) powr (1 / sqrt v)))
                  else Inl ValueError))\<rparr>"

section \<open>Example data\<close>



definition ex_table_2x2 :: "real ndarray" where
  "ex_table_2x2 = NDArray Object [2, 2] [PyScalar 2, PyScalar 1, PyScalar 1, PyScalar 2]"

definition ex_table_3x2 :: "real ndarray" where
  "ex_table_3x2 =
     NDArray Object [3, 2]
       [PyScalar 2, PyScalar 1, PyScalar 1, PyScalar 2, PyScalar 1, PyScalar 1]"

text \<open>
  A stack of 1 x 1 matrices from their entries, and an instance of each
  transformer, not yet fitted, constructed with the domains \<open>A, A, B, B\<close> and the
  Euclidean metric, with labels for four samples.
\<close>

definition stack1 :: "real list \<Rightarrow> real ndarray" where
  "stack1 xs = NDArray Numeric [length xs, 1, 1] (map PyScalar xs)"

definition ex_recenter :: ReCenter where
  "ex_recenter =
     \<lparr>domains = [''A'', ''A'', ''B'', ''B''], metric = ''euclid'',
      re_center' = None, means' = None\<rparr>"

definition ex_rescale :: ReScale where
  "ex_rescale =
     \<lparr>domains = [''A'', ''A'', ''B'', ''B''], metric = ''euclid'',
      re_scale' = None, dispersions' = None\<rparr>"

definition ex_labels :: "string list" where
  "ex_labels = [''0'', ''1'', ''0'', ''1'']"

text \<open>
  The stack \<open>[1, 3, 4, 12]\<close>, whose samples fall into the domains \<open>A\<close> (1 and 3) and
  \<open>B\<close> (4 and 12); the two estimators as a call under the Euclidean metric leaves
  them, given the statistics it stored; and the means of \<open>A\<close> and \<open>B\<close>.
\<close>

definition ex_stack :: "real ndarray" where
  "ex_stack = stack1 [1, 3, 4, 12]"

definition ex_tlcenter :: "(string \<times> real ndarray) list \<Rightarrow> TLCenter" where
  "ex_tlcenter means =
     \<lparr>tlc_target_domain = ''target_domain'', tlc_metric = ''euclid'', tlc_recenter = Some means\<rparr>"

definition ex_tlstretch :: "(string \<times> real ndarray) list \<Rightarrow> (string \<times> real) list \<Rightarrow> TLStretch" where
  "ex_tlstretch means disps =
     \<lparr>tls_target_domain = ''target_domain'', tls_centered_data = False, tls_metric = ''euclid'',
      tls_means = Some means, tls_dispersions = Some disps\<rparr>"

definition ex_means :: "(string \<times> real ndarray) list" where
  "ex_means = [(''A'', mat1 2), (''B'', mat1 8)]"

text \<open>
  The dispersions of the domains \<open>A\<close> and \<open>B\<close> of that stack about their means, the
  instance \<open>ex_recenter\<close> as \<open>fit\<close> on that stack leaves it, an instance for a stack
  of one domain, and the estimator that \<open>ReScale.transform\<close> leaves on the stack
  \<open>[1, 3]\<close>.
\<close>

definition ex_dispersions :: "(string \<times> real) list" where
  "ex_dispersions = [(''A'', 1), (''B'', 16)]"

definition ex_recenter_fitted :: ReCenter where
  "ex_recenter_fitted =
     ex_recenter\<lparr>re_center' := Some (ex_tlcenter ex_means), means' := Some ex_means\<rparr>"

definition ex_rescale_A :: ReScale where
  "ex_rescale_A =
     \<lparr>domains = [''A'', ''A''], metric = ''euclid'', re_scale' = None, dispersions' = None\<rparr>"

definition ex_tlstretch_one :: TLStretch where
  "ex_tlstretch_one = ex_tlstretch [(''target_domain'', mat1 2)] [(''target_domain'', 1)]"


definition ex_rescale_riemann :: ReScale where
  "ex_rescale_riemann =
     \<lparr>domains = [''A'', ''A''], metric = ''riemann'', re_scale' = None, dispersions' = None\<rparr>"

section \<open>Facts about the array operations\<close>

lemma length_chunk: "length (chunk n k xs) = n"
  by (induction n arbitrary: xs) auto

lemma concat_chunk: "concat (chunk n k xs) = take (n * k) xs"
proof (induction n arbitrary: xs)
  case 0
  show ?case by simp
next
  case (Suc n)
  have "take k xs @ take (n * k) (drop k xs) = take (k + n * k) xs"
    by (simp add: take_add)
  with Suc show ?case by simp
qed

lemma check_data_as_stacked:
  "dtype v = Object \<Longrightarrow>
   check_data (DataFrame v) =
     (case stacked v of
        Inl e \<Rightarrow> Inl e
      | Inr out \<Rightarrow>
          if ndim out = 2 then
            (if shape out ! 0 = shape out ! 1 then Inr (Some (newaxis out))
             else Inl AssertionError)
          else Inr (Some out))"
  by (simp add: check_data_def stacked_def split: sum.splits)

text \<open>
  Stacking the rows of a well-formed object-typed table with more than one column
  (so the column axis is kept) and at least one row gives the table back, as a 2-d
  object array.
\<close>

lemma np_stack_rows:
  assumes "dtype v = Object" "shape v = [n, k]" "0 < n" "length (flat v) = n * k"
  shows "np_stack v = Inr (NDArray Object [n, k] (flat v))"
proof -
  obtain m where n: "n = Suc m" using assms(3) by (cases n) auto
  have it: "np_iter v = Inr (map (\<lambda>c. PyArray (NDArray Object [k] c)) (chunk n k (flat v)))"
    using assms(1,2) by (simp add: np_iter_def)
  have cc: "concat (chunk n k (flat v)) = flat v"
    using assms(4) by (simp add: concat_chunk)
  have fl: "concat (map flat (map asanyarray
              (map (\<lambda>c. PyArray (NDArray Object [k] c)) (chunk n k (flat v))))) = flat v"
    using cc by (simp add: asanyarray_def comp_def)
  show ?thesis
    using fl by (simp add: np_stack_def it n asanyarray_def comp_def list_all_iff length_chunk)
qed

lemma stacked_rows:
  assumes "dtype v = Object" "shape v = [n, k]" "k \<noteq> 1" "0 < n" "length (flat v) = n * k"
  shows "stacked v = Inr (NDArray Object [n, k] (flat v))"
  using assms by (simp add: stacked_def shape_at_def ndim_def np_stack_rows)

section \<open>Shape normalization\<close>




text \<open>
  Claim C7. For an object-typed table whose stacked cells form a 2-dimensional
  array, \<open>_check_data\<close> requires the two axes to have the same length: when they
  differ the call raises (AssertionError), when they agree it returns the stacked
  array under one more leading axis of size 1.
\<close>

theorem check_data_single_sample:
  assumes "dtype v = Object" and "stacked v = Inr out" and "ndim out = 2"
  shows "check_data (DataFrame v) =
           (if shape out ! 0 = shape out ! 1
            then Inr (Some (NDArray (dtype out) (1 # shape out) (flat out)))
            else Inl AssertionError)"
  using assms by (simp add: check_data_as_stacked newaxis_def)

theorem check_data_single_sample_witness:
  "check_data (DataFrame ex_table_2x2) =
     Inr (Some (NDArray Object [1, 2, 2] [PyScalar 2, PyScalar 1, PyScalar 1, PyScalar 2])) \<and>
   check_data (DataFrame ex_table_3x2) = Inl AssertionError"
proof -
  have s1: "stacked ex_table_2x2 = Inr ex_table_2x2"
    using stacked_rows [of ex_table_2x2 2 2] by (simp add: ex_table_2x2_def)
  have s2: "stacked ex_table_3x2 = Inr ex_table_3x2"
    using stacked_rows [of ex_table_3x2 3 2] by (simp add: ex_table_3x2_def)
  have d1: "dtype ex_table_2x2 = Object" "ndim ex_table_2x2 = 2"
    by (simp_all add: ex_table_2x2_def ndim_def)
  have d2: "dtype ex_table_3x2 = Object" "ndim ex_table_3x2 = 2"
    by (simp_all add: ex_table_3x2_def ndim_def)
  show ?thesis
    using check_data_single_sample [OF d1(1) s1 d1(2)]
      check_data_single_sample [OF d2(1) s2 d2(2)]
    by (simp add: ex_table_2x2_def ex_table_3x2_def)
qed

text \<open>
  Claim C10, as amended. For a well-formed object-typed table with \<open>n\<close> rows and
  \<open>k > 1\<close> columns, \<open>_check_data\<close> keeps the column axis and never checks the number
  of columns: it stacks the rows into an \<open>(n, k)\<close> object array. That array is
  2-dimensional, so the single-sample test applies to it: the call raises
  AssertionError unless \<open>n = k\<close>, and for \<open>n = k\<close> it returns the table itself as one
  object-typed \<open>(1, k, k)\<close> stack. A table without rows is a ValueError of
  \<open>np.stack\<close>.
\<close>

theorem check_data_multi_column:
  assumes "dtype v = Object" and "shape v = [n, k]" and "1 < k" and "well_formed v"
  shows "check_data (DataFrame v) =
           (if n = 0 then Inl ValueError
            else if n = k then Inr (Some (NDArray Object [1, n, k] (flat v)))
            else Inl AssertionError)"
proof (cases "n = 0")
  case True
  have "np_iter v = Inr []"
    using assms(1,2) True by (simp add: np_iter_def)
  then have "stacked v = Inl ValueError"
    using assms(2,3) by (simp add: stacked_def shape_at_def ndim_def np_stack_def)
  then show ?thesis
    using True assms(1) by (simp add: check_data_as_stacked)
next
  case False
  then have "stacked v = Inr (NDArray Object [n, k] (flat v))"
    using assms by (intro stacked_rows) (auto simp: well_formed_def)
  then show ?thesis
    using False assms(1) by (simp add: check_data_as_stacked ndim_def newaxis_def)
qed

theorem check_data_multi_column_witness:
  "check_data (DataFrame ex_table_2x2) =
     Inr (Some (NDArray Object [1, 2, 2] (flat ex_table_2x2))) \<and>
   check_data (DataFrame ex_table_3x2) = Inl AssertionError"
  using check_data_multi_column [of ex_table_3x2 3 2]
    check_data_multi_column [of ex_table_2x2 2 2]
  by (simp add: ex_table_3x2_def ex_table_2x2_def well_formed_def)

text \<open>
  Claim C10 as stated fails: on an object-typed table with three rows and two
  columns the call does raise.
\<close>

theorem check_data_multi_column_raises:
  "check_data (DataFrame ex_table_3x2) = Inl AssertionError"
  by (simp add: check_data_def ex_table_3x2_def shape_at_def ndim_def np_stack_def np_iter_def
      asanyarray_def eval_nat_numeral)

section \<open>Facts about the collaborator and the transformers\<close>

lemma mapM_Inr_iff: "mapM f xs = Inr ys \<longleftrightarrow> list_all2 (\<lambda>x y. f x = Inr y) xs ys"
proof (induction xs arbitrary: ys)
  case Nil
  show ?case by auto
next
  case (Cons x xs)
  show ?case
    by (cases ys) (auto simp: Cons [symmetric] split: sum.splits)
qed

lemma mapM_replicate:
  "mapM f (replicate n x) = (case f x of Inl e \<Rightarrow> if n = 0 then Inr [] else Inl e
                             | Inr y \<Rightarrow> Inr (replicate n y))"
  by (induction n) (auto split: sum.splits)

lemma encode_target:
  "encode_domains X (replicate n ''0'') (replicate n ''target_domain'') =
     (X, replicate n ''target_domain/0'')"
  by (simp add: encode_domains_def zip_replicate map_replicate_const)

lemma decode_target_key: "decode_domain ''target_domain/0'' = Inr ''target_domain''"
  by (simp add: decode_domain_def)

lemma decode_target:
  "decode_domains (replicate n ''target_domain/0'') = Inr (replicate n ''target_domain'')"
  by (simp add: decode_domains_def mapM_replicate decode_target_key)

lemma remdups_replicate_Suc: "remdups (replicate (Suc n) d) = [d]"
  by (induction n) auto

lemma np_unique_replicate: "np_unique (replicate n d) = (if n = 0 then [] else [d])"
  by (cases n) (simp_all add: np_unique_def remdups_replicate_Suc del: replicate_Suc)

lemma length_rows: "shape a = n # rest \<Longrightarrow> length (rows a) = n"
  by (simp add: rows_def length_chunk)

lemma filter_all_True: "length rs = n \<Longrightarrow> map fst (filter snd (zip rs (replicate n True))) = rs"
  by (induction rs arbitrary: n) auto

lemma mask_rows_all:
  "shape a = n # rest \<Longrightarrow> mask_rows (Some a) (replicate n True) = Inr (rows a)"
  by (simp add: mask_rows_def filter_all_True length_rows)

lemma mask_rows_all_rows:
  "shape a = n # rest \<Longrightarrow> mask_rows (Some a) (replicate (length (rows a)) True) = Inr (rows a)"
  using mask_rows_all [of a n rest] by (simp add: length_rows)

lemma assign_masked_all:
  "assign_masked (whiten G m M) (replicate (length rs) True) rs (map zeros_like rs) =
     mapM (whiten_checked G m M) rs"
  by (induction rs) (auto simp: whiten_checked_def zeros_like_def split: sum.splits)

lemma TLCenter_fit_target:
  assumes "shape a = n # rest" "0 < n"
  shows "TLCenter_fit G (new_TLCenter t m) (Some a) (replicate n ''target_domain/0'') =
           (case mean_covariance G m (rows a) of
              Inl e \<Rightarrow> Inl e
            | Inr M \<Rightarrow> Inr \<lparr>tlc_target_domain = t, tlc_metric = m,
                            tlc_recenter = Some [(''target_domain'', M)]\<rparr>)"
  using assms
  by (simp add: TLCenter_fit_def decode_target np_unique_replicate domain_mean_def
      mask_rows_all new_TLCenter_def split: sum.splits)

lemma TLCenter_fit_empty:
  "TLCenter_fit G (new_TLCenter t m) X [] =
     Inr \<lparr>tlc_target_domain = t, tlc_metric = m, tlc_recenter = Some []\<rparr>"
  by (simp add: TLCenter_fit_def decode_domains_def np_unique_def new_TLCenter_def)

lemma TLCenter_fit_transform_target:
  assumes "shape a = n # rest"
  shows "returned (TLCenter_fit_transform G (new_TLCenter t m) (Some a)
                     (replicate n ''target_domain/0'')) =
           recenter_as_one_domain G m a"
proof (cases "n = 0")
  case True
  then have "rows a = []" using assms length_rows [OF assms] by simp
  then show ?thesis
    using True assms
    by (simp add: TLCenter_fit_transform_def TLCenter_fit_empty decode_domains_def attr_def
        np_unique_def recenter_as_one_domain_def returned_def)
next
  case False
  then have n: "0 < n" by simp
  have len: "replicate n True = replicate (length (rows a)) True"
    using length_rows [OF assms] by simp
  show ?thesis
    using False assms
    by (simp add: TLCenter_fit_transform_def TLCenter_fit_target [OF assms n] decode_target
        attr_def np_unique_replicate mask_rows_all_rows [OF assms] lookup_def
        recenter_as_one_domain_def returned_def len assign_masked_all split: sum.splits)
qed

lemma ReCenter_transform_returned:
  "returned (ReCenter_transform G s X y) =
     (case check_data X of
        Inl e \<Rightarrow> Inl e
      | Inr None \<Rightarrow> Inl AttributeError
      | Inr (Some a) \<Rightarrow> recenter_as_one_domain G (metric s) a)"
proof (cases "check_data X")
  case (Inl e)
  then show ?thesis by (simp add: ReCenter_transform_def returned_def)
next
  case (Inr X')
  show ?thesis
  proof (cases X')
    case None
    then show ?thesis using Inr by (simp add: ReCenter_transform_def returned_def n_samples_def)
  next
    case (Some a)
    show ?thesis
    proof (cases "shape a")
      case Nil
      then show ?thesis
        using Inr Some
        by (simp add: ReCenter_transform_def returned_def n_samples_def shape_at_def ndim_def
            recenter_as_one_domain_def)
    next
      case (Cons n rest)
      have "returned (ReCenter_transform G s X y) =
              returned (TLCenter_fit_transform G (new_TLCenter ''target_domain'' (metric s))
                          (Some a) (replicate n ''target_domain/0''))"
        using Inr Some Cons
        by (simp add: ReCenter_transform_def n_samples_def shape_at_def ndim_def encode_target
            returned_def split: sum.splits prod.splits)
      then show ?thesis
        using Inr Some by (simp add: TLCenter_fit_transform_target [OF Cons])
    qed
  qed
qed

lemma TLStretch_fit_target:
  assumes "shape a = n # rest" "0 < n"
  shows "TLStretch_fit G (new_TLStretch t False m) (Some a) (replicate n ''target_domain/0'') =
           (case mean_covariance G m (rows a) of
              Inl e \<Rightarrow> Inl e
            | Inr M \<Rightarrow>
                (case dispersion_about G m M (rows a) of
                   Inl e \<Rightarrow> Inl e
                 | Inr v \<Rightarrow>
                     Inr \<lparr>tls_target_domain = t, tls_centered_data = False, tls_metric = m,
                          tls_means = Some [(''target_domain'', M)],
                          tls_dispersions = Some [(''target_domain'', v)]\<rparr>))"
  using assms
  by (simp add: TLStretch_fit_def decode_target np_unique_replicate domain_dispersion_def
      mask_rows_all new_TLStretch_def dispersion_about_def split: sum.splits)

lemma TLStretch_fit_empty:
  "TLStretch_fit G (new_TLStretch t c m) X [] =
     Inr \<lparr>tls_target_domain = t, tls_centered_data = c, tls_metric = m,
          tls_means = Some [], tls_dispersions = Some []\<rparr>"
  by (simp add: TLStretch_fit_def decode_domains_def np_unique_def new_TLStretch_def)

lemma ReScale_transform_unfold:
  "ReScale_transform G self X y =
     (case check_data X of
        Inl e \<Rightarrow> Inl e
      | Inr X' \<Rightarrow>
          (case n_samples X' of
             Inl e \<Rightarrow> Inl e
           | Inr n \<Rightarrow>
               (case TLStretch_fit G (new_TLStretch ''target_domain'' False (metric self)) X'
                       (replicate n ''target_domain/0'') of
                  Inl e \<Rightarrow> Inl e
                | Inr rs \<Rightarrow>
                    (case TLStretch_transform G rs X' of
                       Inl e \<Rightarrow> Inl e
                     | Inr X_str \<Rightarrow> Inr (X_str, self\<lparr>re_scale' := Some rs\<rparr>)))))"
  by (simp add: ReScale_transform_def encode_target split: sum.splits)

lemma ReScale_transform_returned:
  "returned (ReScale_transform G self X y) =
     (case check_data X of
        Inl e \<Rightarrow> Inl e
      | Inr None \<Rightarrow> Inl AttributeError
      | Inr (Some a) \<Rightarrow> rescale_as_one_domain G (metric self) a)"
proof (cases "check_data X")
  case (Inl e)
  then show ?thesis by (simp add: ReScale_transform_unfold returned_def)
next
  case (Inr X')
  show ?thesis
  proof (cases X')
    case None
    then show ?thesis using Inr by (simp add: ReScale_transform_unfold returned_def n_samples_def)
  next
    case (Some a)
    show ?thesis
    proof (cases "shape a")
      case Nil
      then show ?thesis
        using Inr Some
        by (simp add: ReScale_transform_unfold returned_def n_samples_def shape_at_def ndim_def
            rescale_as_one_domain_def)
    next
      case (Cons n rest)
      show ?thesis
      proof (cases "n = 0")
        case True
        then show ?thesis
          using Inr Some Cons
          by (simp add: ReScale_transform_unfold returned_def n_samples_def shape_at_def ndim_def
              rescale_as_one_domain_def TLStretch_fit_empty TLStretch_transform_def attr_def
              lookup_def)
      next
        case False
        then have n: "0 < n" by simp
        show ?thesis
          using Inr Some Cons False
          by (simp add: ReScale_transform_unfold returned_def n_samples_def shape_at_def ndim_def
              rescale_as_one_domain_def TLStretch_fit_target [OF Cons n] TLStretch_transform_def
              attr_def lookup_def split: sum.splits)
      qed
    qed
  qed
qed






lemma np_unique_set: "set (np_unique ds) = set ds"
  by (simp add: np_unique_def)







lemma TLStretch_fit_Inr:
  assumes "TLStretch_fit G ts X y_enc = Inr ts'"
  shows "\<exists>doms stats. decode_domains y_enc = Inr doms \<and>
           ts' = ts\<lparr>tls_means := Some (map (\<lambda>(d, M, v). (d, M)) stats),
                     tls_dispersions := Some (map (\<lambda>(d, M, v). (d, v)) stats)\<rparr> \<and>
           list_all2 (\<lambda>d p. domain_dispersion G (tls_centered_data ts) (tls_metric ts) X doms d
                               = Inr p) (np_unique doms) stats"
  using assms by (auto simp: TLStretch_fit_def mapM_Inr_iff split: sum.splits)

lemma domain_dispersion_False_Inr:
  "domain_dispersion G False m X doms d = Inr p \<longleftrightarrow>
     (\<exists>sub M v. mask_rows X (map (\<lambda>x. x = d) doms) = Inr sub \<and>
                mean_covariance G m sub = Inr M \<and> dispersion_about G m M sub = Inr v \<and>
                p = (d, M, v))"
  by (auto simp: domain_dispersion_def dispersion_about_def split: sum.splits)

lemma domain_dispersions_keys:
  "list_all2 (\<lambda>d p. domain_dispersion G False m X doms d = Inr p) ds stats \<Longrightarrow>
   map fst (map (\<lambda>(d, M, v). (d, v)) stats) = ds"
  by (induction rule: list_all2_induct) (auto simp: domain_dispersion_False_Inr)

lemma domain_dispersions_map_of:
  assumes "list_all2 (\<lambda>d p. domain_dispersion G False m X doms d = Inr p) ds stats"
    and "d \<in> set ds"
  shows "\<exists>sub v. mask_rows X (map (\<lambda>x. x = d) doms) = Inr sub \<and>
                 dispersion_about_mean G m sub = Inr v \<and>
                 map_of (map (\<lambda>(d, M, v). (d, v)) stats) d = Some v"
  using assms
proof (induction rule: list_all2_induct)
  case Nil
  then show ?case by simp
next
  case (Cons x xs p ps)
  obtain sub M v where p: "mask_rows X (map (\<lambda>y. y = x) doms) = Inr sub"
    "mean_covariance G m sub = Inr M" "dispersion_about G m M sub = Inr v" "p = (x, M, v)"
    using Cons.hyps(1) by (auto simp: domain_dispersion_False_Inr)
  show ?case
  proof (cases "d = x")
    case True
    then show ?thesis using p by (auto simp: dispersion_about_mean_def)
  next
    case False
    then have "d \<in> set xs" using Cons.prems by simp
    then show ?thesis using Cons.IH p(4) False by auto
  qed
qed







lemma ReScale_transform_Inr:
  assumes X: "check_data X = Inr (Some a)"
    and t: "ReScale_transform G self X y = Inr (Y, s)"
  shows "\<exists>M v out.
           mean_covariance G (metric self) (rows a) = Inr M \<and>
           dispersion_about G (metric self) M (rows a) = Inr v \<and>
           list_all2 (\<lambda>S R. stretch G (metric self) M v S = Inr R) (rows a) out \<and>
           dtype Y = dtype a \<and> shape Y = shape a \<and> flat Y = concat (map flat out) \<and>
           s = self\<lparr>re_scale' :=
                     Some \<lparr>tls_target_domain = ''target_domain'', tls_centered_data = False,
                           tls_metric = metric self,
                           tls_means = Some [(''target_domain'', M)],
                           tls_dispersions = Some [(''target_domain'', v)]\<rparr>\<rparr>"
proof (cases "shape a")
  case Nil
  then show ?thesis
    using X t by (simp add: ReScale_transform_unfold n_samples_def shape_at_def ndim_def)
next
  case (Cons n rest)
  show ?thesis
  proof (cases "n = 0")
    case True
    then show ?thesis
      using X t Cons
      by (simp add: ReScale_transform_unfold n_samples_def shape_at_def ndim_def
          TLStretch_fit_empty TLStretch_transform_def attr_def lookup_def)
  next
    case False
    then have n: "0 < n" by simp
    show ?thesis
      using X t Cons False
      apply (auto simp: ReScale_transform_unfold n_samples_def shape_at_def ndim_def
          TLStretch_fit_target [OF Cons n] TLStretch_transform_def attr_def lookup_def
          mapM_Inr_iff restack_def split: sum.splits)
      subgoal for M v out by (rule exI [of _ out]) simp
      done
  qed
qed

section \<open>Facts about the example geometry\<close>

lemma chunk_singletons: "chunk (length xs) (Suc 0) xs = map (\<lambda>x. [x]) xs"
  by (induction xs) auto

lemma rows_stack1: "rows (stack1 xs) = map mat1 xs"
  using chunk_singletons [of "map PyScalar xs"]
  by (simp add: rows_def stack1_def mat1_def comp_def)

lemma entry1_mat1: "entry1 (mat1 x) = (if 0 < x then Some x else None)"
  by (simp add: entry1_def mat1_def)


lemma those_entry1: "list_all (\<lambda>x. 0 < x) xs \<Longrightarrow> those (map (entry1 \<circ> mat1) xs) = Some xs"
  by (induction xs) (auto simp: entry1_mat1)

lemma shape_stack1: "shape (stack1 xs) = [length xs, 1, 1]"
  by (simp add: stack1_def)

lemma mean_1x1:
  "xs \<noteq> [] \<Longrightarrow> list_all (\<lambda>x. 0 < x) xs \<Longrightarrow>
   mean_covariance geometry_1x1 ''euclid'' (map mat1 xs) = Inr (mat1 (average xs))"
  by (simp add: geometry_1x1_def those_entry1 scalar_mean_def)

lemma whiten_1x1:
  "0 < \<mu> \<Longrightarrow> 0 < x \<Longrightarrow> whiten geometry_1x1 m (mat1 \<mu>) (mat1 x) = Inr (mat1 (x / \<mu>))"
  by (simp add: geometry_1x1_def entry1_mat1)

lemma distance_1x1:
  "0 < x \<Longrightarrow> 0 < y \<Longrightarrow>
   distance_sq geometry_1x1 ''euclid'' (mat1 x) (mat1 y) = Inr ((x - y)\<^sup>2)"
  by (simp add: geometry_1x1_def entry1_mat1 scalar_distance_sq_def)

lemma restack_stack1: "length ys = length xs \<Longrightarrow> restack (stack1 xs) (map mat1 ys) = stack1 ys"
  by (simp add: restack_def stack1_def mat1_def comp_def)

lemma ex_keys:
  "decode_domains (snd (encode_domains X ex_labels [''A'', ''A'', ''B'', ''B''])) =
     Inr [''A'', ''A'', ''B'', ''B'']"
  by (simp add: encode_domains_def ex_labels_def decode_domains_def decode_domain_def)

lemma ex_unique: "np_unique [''A'', ''A'', ''B'', ''B''] = [''A'', ''B'']"
  by (simp add: np_unique_def)

lemma ex_check: "check_data (Ndarray (stack1 xs)) = Inr (Some (stack1 xs))"
  by (simp add: check_data_def stack1_def ndim_def)

lemma ex_mask_A:
  "mask_rows (Some (stack1 [a, b, c, d])) [True, True, False, False] = Inr [mat1 a, mat1 b]"
  by (simp add: mask_rows_def rows_stack1 shape_stack1)

lemma ex_mask_B:
  "mask_rows (Some (stack1 [a, b, c, d])) [False, False, True, True] = Inr [mat1 c, mat1 d]"
  by (simp add: mask_rows_def rows_stack1 shape_stack1)

lemma ex_TLCenter_fit:
  "TLCenter_fit geometry_1x1 (new_TLCenter t ''euclid'') (Some (stack1 [1, 3, 4, 12]))
     (snd (encode_domains X ex_labels [''A'', ''A'', ''B'', ''B''])) =
   Inr \<lparr>tlc_target_domain = t, tlc_metric = ''euclid'', tlc_recenter = Some ex_means\<rparr>"
  using mean_1x1 [of "[1, 3]"] mean_1x1 [of "[4, 12]"]
  by (simp add: TLCenter_fit_def ex_keys ex_unique domain_mean_def ex_mask_A ex_mask_B
      new_TLCenter_def average_def ex_means_def)

lemma ex_fit:
  "ReCenter_fit geometry_1x1 ex_recenter (Ndarray (stack1 [1, 3, 4, 12])) ex_labels =
     Inr (ex_recenter\<lparr>re_center' := Some \<lparr>tlc_target_domain = ''target_domain'',
                                           tlc_metric = ''euclid'', tlc_recenter = Some ex_means\<rparr>,
                      means' := Some ex_means\<rparr>)"
  using ex_TLCenter_fit [of "''target_domain''" "Some (stack1 [1, 3, 4, 12])"]
  by (simp add: ReCenter_fit_def ex_check case_prod_beta) (simp add: ex_recenter_def)

lemma TLCenter_fit_transform_target_full:
  assumes "shape a = n # rest" "0 < n"
  shows "TLCenter_fit_transform G (new_TLCenter t m) (Some a) (replicate n ''target_domain/0'') =
           (case mean_covariance G m (rows a) of
              Inl e \<Rightarrow> Inl e
            | Inr M \<Rightarrow>
                (case mapM (whiten_checked G m M) (rows a) of
                   Inl e \<Rightarrow> Inl e
                 | Inr out \<Rightarrow>
                     Inr (restack a out,
                          \<lparr>tlc_target_domain = t, tlc_metric = m,
                           tlc_recenter = Some [(''target_domain'', M)]\<rparr>)))"
proof -
  have len: "replicate n True = replicate (length (rows a)) True"
    using length_rows [OF assms(1)] by simp
  show ?thesis
    using assms
    by (simp add: TLCenter_fit_transform_def TLCenter_fit_target [OF assms] decode_target
        attr_def np_unique_replicate mask_rows_all_rows [OF assms(1)] lookup_def
        len assign_masked_all split: sum.splits)
qed

lemma ex_transform:
  assumes "metric s = ''euclid''"
  shows "ReCenter_transform geometry_1x1 s (Ndarray ex_stack) y =
           Inr (stack1 [1 / 5, 3 / 5, 4 / 5, 12 / 5],
                s\<lparr>re_center' := Some (ex_tlcenter [(''target_domain'', mat1 5)])\<rparr>)"
proof -
  have sh: "shape ex_stack = 4 # [1, 1]" by (simp add: ex_stack_def shape_stack1)
  have r: "rows ex_stack = [mat1 1, mat1 3, mat1 4, mat1 12]"
    by (simp add: ex_stack_def rows_stack1)
  have w: "mapM (whiten_checked geometry_1x1 ''euclid'' (mat1 5)) [mat1 1, mat1 3, mat1 4, mat1 12] =
             Inr [mat1 (1 / 5), mat1 (3 / 5), mat1 (4 / 5), mat1 (12 / 5)]"
    by (simp add: whiten_checked_def whiten_1x1) (simp add: mat1_def)
  have rs: "restack ex_stack [mat1 (1 / 5), mat1 (3 / 5), mat1 (4 / 5), mat1 (12 / 5)] =
              stack1 [1 / 5, 3 / 5, 4 / 5, 12 / 5]"
    using restack_stack1 [of "[1 / 5, 3 / 5, 4 / 5, 12 / 5]" "[1, 3, 4, 12]"]
    by (simp add: ex_stack_def)
  have mean: "mean_covariance geometry_1x1 ''euclid'' [mat1 1, mat1 3, mat1 4, mat1 12] =
                Inr (mat1 5)"
    using mean_1x1 [of "[1, 3, 4, 12]"] by (simp add: average_def)
  have "TLCenter_fit_transform geometry_1x1 (new_TLCenter ''target_domain'' ''euclid'')
          (Some ex_stack) (replicate 4 ''target_domain/0'') =
        Inr (stack1 [1 / 5, 3 / 5, 4 / 5, 12 / 5], ex_tlcenter [(''target_domain'', mat1 5)])"
    by (simp only: TLCenter_fit_transform_target_full [OF sh zero_less_numeral] r mean w rs
        sum.case ex_tlcenter_def)
  then show ?thesis
    using assms sh
    by (simp add: ReCenter_transform_def ex_check ex_stack_def n_samples_def shape_at_def
        ndim_def encode_target)
qed

lemma ex_fit_transform_full:
  "ReCenter_fit_transform geometry_1x1 ex_recenter (Ndarray ex_stack) ex_labels =
     Inr (stack1 [1 / 2, 3 / 2, 1 / 2, 3 / 2],
          ex_recenter\<lparr>re_center' := Some (ex_tlcenter ex_means)\<rparr>)"
proof -
  have "TLCenter_fit_transform geometry_1x1 (new_TLCenter ''target_domain'' ''euclid'')
          (Some (stack1 [1, 3, 4, 12]))
          (snd (encode_domains X ex_labels [''A'', ''A'', ''B'', ''B''])) =
        Inr (stack1 [1 / 2, 3 / 2, 1 / 2, 3 / 2], ex_tlcenter ex_means)" for X :: "real ndarray option"
    using restack_stack1 [of "[1 / 2, 3 / 2, 1 / 2, 3 / 2]" "[1, 3, 4, 12]"]
    by (simp add: TLCenter_fit_transform_def ex_TLCenter_fit ex_keys ex_unique attr_def
        rows_stack1 ex_mask_A ex_mask_B lookup_def ex_means_def whiten_1x1 zeros_like_def
        ex_tlcenter_def)
      (simp add: mat1_def)
  from this [of "Some (stack1 [1, 3, 4, 12])"] show ?thesis
    by (simp add: ReCenter_fit_transform_def ex_check ex_stack_def case_prod_beta)
      (simp add: ex_recenter_def)
qed

lemma ex_fit_full:
  "ReCenter_fit geometry_1x1 ex_recenter (Ndarray ex_stack) ex_labels =
     Inr (ex_recenter\<lparr>re_center' := Some (ex_tlcenter ex_means), means' := Some ex_means\<rparr>)"
  using ex_fit by (simp add: ex_stack_def ex_tlcenter_def)


lemma sum_list_pos: "ys \<noteq> [] \<Longrightarrow> list_all (\<lambda>x. 0 < x) ys \<Longrightarrow> 0 < sum_list (ys :: real list)"
proof (induction ys)
  case Nil
  then show ?case by simp
next
  case (Cons y ys)
  show ?case
  proof (cases "ys = []")
    case True
    then show ?thesis using Cons.prems by simp
  next
    case False
    then have "0 < sum_list ys" using Cons by simp
    then show ?thesis using Cons.prems by (simp add: add_pos_pos)
  qed
qed

lemma average_pos: "xs \<noteq> [] \<Longrightarrow> list_all (\<lambda>x. 0 < x) xs \<Longrightarrow> 0 < average xs"
  by (simp add: average_def sum_list_pos)

lemma whiten_checked_1x1:
  "0 < \<mu> \<Longrightarrow> 0 < x \<Longrightarrow>
   whiten_checked geometry_1x1 m (mat1 \<mu>) (mat1 x) = Inr (mat1 (x / \<mu>))"
  by (simp add: whiten_checked_def whiten_1x1) (simp add: mat1_def)

lemma whiten_all_1x1:
  "0 < \<mu> \<Longrightarrow> list_all (\<lambda>x. 0 < x) xs \<Longrightarrow>
   mapM (whiten_checked geometry_1x1 m (mat1 \<mu>)) (map mat1 xs) =
     Inr (map (mat1 \<circ> (\<lambda>x. x / \<mu>)) xs)"
  by (induction xs) (simp_all add: whiten_checked_1x1)

lemma concat_singletons: "concat (map (\<lambda>x. [g x]) xs) = map g xs"
  by (induction xs) auto

lemma restack_stack1_comp: "restack (stack1 xs) (map (mat1 \<circ> f) xs) = stack1 (map f xs)"
  by (simp add: restack_def stack1_def mat1_def comp_def concat_singletons)

lemma recenter_one_1x1:
  assumes "xs \<noteq> []" "list_all (\<lambda>x. 0 < x) xs"
  shows "recenter_as_one_domain geometry_1x1 ''euclid'' (stack1 xs) =
           Inr (stack1 (map (\<lambda>x. x / average xs) xs))"
  using assms average_pos [OF assms]
  by (simp add: recenter_as_one_domain_def shape_stack1 rows_stack1 mean_1x1 whiten_all_1x1
      restack_stack1_comp)

lemma transform_1x1:
  assumes "metric s = ''euclid''" "xs \<noteq> []" "list_all (\<lambda>x. 0 < x) xs"
  shows "ReCenter_transform geometry_1x1 s (Ndarray (stack1 xs)) y =
           Inr (stack1 (map (\<lambda>x. x / average xs) xs),
                s\<lparr>re_center' := Some (ex_tlcenter [(''target_domain'', mat1 (average xs))])\<rparr>)"
proof -
  have sh: "shape (stack1 xs) = length xs # [1, 1]" by (simp add: shape_stack1)
  have n: "0 < length xs" using assms(2) by simp
  have "TLCenter_fit_transform geometry_1x1 (new_TLCenter ''target_domain'' ''euclid'')
          (Some (stack1 xs)) (replicate (length xs) ''target_domain/0'') =
        Inr (stack1 (map (\<lambda>x. x / average xs) xs),
             ex_tlcenter [(''target_domain'', mat1 (average xs))])"
    using assms average_pos [OF assms(2,3)]
    by (simp add: TLCenter_fit_transform_target_full [OF sh n] rows_stack1 mean_1x1
        whiten_all_1x1 restack_stack1_comp ex_tlcenter_def)
  then show ?thesis
    using assms(1)
    by (simp add: ReCenter_transform_def ex_check n_samples_def shape_at_def ndim_def
        shape_stack1 encode_target)
qed

lemma stretch_1x1:
  "0 < \<mu> \<Longrightarrow> 0 < x \<Longrightarrow> 0 < v \<Longrightarrow>
   stretch geometry_1x1 m (mat1 \<mu>) v (mat1 x) = Inr (mat1 (\<mu> * (x / \<mu>) powr (1 / sqrt v)))"
  by (simp add: geometry_1x1_def entry1_mat1)

lemma ex_stretch_1: "stretch geometry_1x1 ''euclid'' (mat1 2) 1 (mat1 1) = Inr (mat1 1)"
  by (simp add: stretch_1x1)

lemma ex_stretch_3: "stretch geometry_1x1 ''euclid'' (mat1 2) 1 (mat1 3) = Inr (mat1 3)"
  by (simp add: stretch_1x1)

lemma ex_rescale_one:
  "rescale_as_one_domain geometry_1x1 ''euclid'' (stack1 [1, 3]) = Inr (stack1 [1, 3])"
proof -
  have m: "mean_covariance geometry_1x1 ''euclid'' [mat1 1, mat1 3] = Inr (mat1 2)"
    using mean_1x1 [of "[1, 3]"] by (simp add: average_def)
  have d: "dispersion_about geometry_1x1 ''euclid'' (mat1 2) [mat1 1, mat1 3] = Inr 1"
    by (simp add: dispersion_about_def distance_1x1 average_def)
  have s: "mapM (stretch geometry_1x1 ''euclid'' (mat1 2) 1) [mat1 1, mat1 3] =
             Inr [mat1 1, mat1 3]"
    by (simp add: ex_stretch_1 ex_stretch_3)
  have r: "restack (stack1 [1, 3]) [mat1 1, mat1 3] = stack1 [1, 3]"
    using restack_stack1 [of "[1, 3]" "[1, 3]"] by simp
  show ?thesis
    by (simp add: rescale_as_one_domain_def shape_stack1 rows_stack1 m d ex_stretch_1
        ex_stretch_3 r)
qed

lemma eye_1: "eye (Suc 0) = mat1 1"
  by (simp add: eye_def mat1_def)

lemma ex_dispersion_A:
  "dispersion_about geometry_1x1 ''euclid'' (mat1 2) [mat1 1, mat1 3] = Inr 1"
  by (simp add: dispersion_about_def distance_1x1 average_def)

lemma ex_dispersion_B:
  "dispersion_about geometry_1x1 ''euclid'' (mat1 8) [mat1 4, mat1 12] = Inr 16"
  by (simp add: dispersion_about_def distance_1x1 average_def)

lemma ex_mean_A: "mean_covariance geometry_1x1 ''euclid'' [mat1 1, mat1 3] = Inr (mat1 2)"
  using mean_1x1 [of "[1, 3]"] by (simp add: average_def)

lemma ex_mean_B: "mean_covariance geometry_1x1 ''euclid'' [mat1 4, mat1 12] = Inr (mat1 8)"
  using mean_1x1 [of "[4, 12]"] by (simp add: average_def)

lemma ex_TLStretch_fit:
  "TLStretch_fit geometry_1x1 (new_TLStretch ''target_domain'' False ''euclid'')
     (Some (stack1 [1, 3, 4, 12]))
     (snd (encode_domains X ex_labels [''A'', ''A'', ''B'', ''B''])) =
   Inr (ex_tlstretch ex_means ex_dispersions)"
  using ex_dispersion_A ex_dispersion_B
  by (simp add: TLStretch_fit_def ex_keys ex_unique domain_dispersion_def ex_mask_A ex_mask_B
      new_TLStretch_def ex_mean_A ex_mean_B dispersion_about_def ex_means_def
      ex_dispersions_def ex_tlstretch_def split: sum.splits)

lemma ex_ReScale_fit:
  "ReScale_fit geometry_1x1 ex_rescale (Ndarray ex_stack) ex_labels =
     Inr (ex_rescale\<lparr>re_scale' := Some (ex_tlstretch ex_means ex_dispersions),
                     dispersions' := Some ex_dispersions\<rparr>)"
  using ex_TLStretch_fit [of "Some (stack1 [1, 3, 4, 12])"]
  by (simp add: ReScale_fit_def ex_check ex_stack_def case_prod_beta)
    (simp add: ex_rescale_def ex_tlstretch_def)

lemma ex_transform_after_fit:
  "ReCenter_transform geometry_1x1 ex_recenter_fitted (Ndarray (stack1 [2, 6])) None =
     Inr (stack1 [1 / 2, 3 / 2],
          ex_recenter_fitted\<lparr>re_center' := Some (ex_tlcenter [(''target_domain'', mat1 4)])\<rparr>)"
  using transform_1x1 [of ex_recenter_fitted "[2, 6]" None]
  by (simp add: ex_recenter_fitted_def ex_recenter_def average_def)

lemma ex_ReScale_transform:
  "ReScale_transform geometry_1x1 ex_rescale (Ndarray (stack1 [1, 3])) None =
     Inr (stack1 [1, 3], ex_rescale\<lparr>re_scale' := Some ex_tlstretch_one\<rparr>)"
proof -
  have sh: "shape (stack1 [1, 3]) = 2 # [1, 1]" by (simp add: shape_stack1)
  have f: "TLStretch_fit geometry_1x1 (new_TLStretch ''target_domain'' False ''euclid'')
             (Some (stack1 [1, 3])) [''target_domain/0'', ''target_domain/0''] =
           Inr ex_tlstretch_one"
    using TLStretch_fit_target [OF sh, of geometry_1x1 "''target_domain''" "''euclid''"]
    by (simp add: rows_stack1 ex_mean_A ex_dispersion_A ex_tlstretch_def ex_tlstretch_one_def
        eval_nat_numeral)
  have r: "restack (stack1 [1, 3]) [mat1 1, mat1 3] = stack1 [1, 3]"
    using restack_stack1 [of "[1, 3]" "[1, 3]"] by simp
  have t: "TLStretch_transform geometry_1x1 ex_tlstretch_one (Some (stack1 [1, 3])) =
             Inr (stack1 [1, 3])"
    by (simp add: TLStretch_transform_def ex_tlstretch_def ex_tlstretch_one_def attr_def
        lookup_def rows_stack1 ex_stretch_1 ex_stretch_3 r)
  have e: "metric ex_rescale = ''euclid''" by (simp add: ex_rescale_def)
  show ?thesis
    by (simp add: ReScale_transform_unfold ex_check n_samples_def shape_at_def ndim_def
        shape_stack1 e f t)
qed

lemma zeros_like_sel:
  "shape (zeros_like r) = shape r" "length (flat (zeros_like r)) = length (flat r)"
  by (simp_all add: zeros_like_def)

lemma ex_ReScale_fit_transform:
  "ReScale_fit_transform geometry_1x1 ex_rescale_A (Ndarray (stack1 [1, 3])) [''0'', ''1''] =
     Inr (stack1 [1, 3],
          ex_rescale_A\<lparr>re_scale' := Some (ex_tlstretch [(''A'', mat1 2)] [(''A'', 1)])\<rparr>)"
proof -
  have k: "decode_domains (snd (encode_domains X [''0'', ''1''] [''A'', ''A''])) =
             Inr [''A'', ''A'']" for X :: "real ndarray option"
    by (simp add: encode_domains_def decode_domains_def decode_domain_def)
  have u: "np_unique [''A'', ''A''] = [''A'']" by (simp add: np_unique_def)
  have mk: "mask_rows (Some (stack1 [1, 3])) [True, True] = Inr [mat1 1, mat1 3]"
    by (simp add: mask_rows_def rows_stack1 shape_stack1)
  have f: "TLStretch_fit geometry_1x1 (new_TLStretch ''target_domain'' False ''euclid'')
             (Some (stack1 [1, 3])) (snd (encode_domains X [''0'', ''1''] [''A'', ''A''])) =
           Inr (ex_tlstretch [(''A'', mat1 2)] [(''A'', 1)])" for X :: "real ndarray option"
    by (simp add: TLStretch_fit_def k u domain_dispersion_def mk ex_mean_A distance_1x1
        average_def new_TLStretch_def ex_tlstretch_def)
  have r: "restack (stack1 [1, 3]) [mat1 1, mat1 3] = stack1 [1, 3]"
    using restack_stack1 [of "[1, 3]" "[1, 3]"] by simp
  have "TLStretch_fit_transform geometry_1x1 (new_TLStretch ''target_domain'' False ''euclid'')
          (Some (stack1 [1, 3])) (snd (encode_domains X [''0'', ''1''] [''A'', ''A''])) =
        Inr (stack1 [1, 3], ex_tlstretch [(''A'', mat1 2)] [(''A'', 1)])"
    for X :: "real ndarray option"
    by (simp add: TLStretch_fit_transform_def f k u attr_def ex_tlstretch_def mk lookup_def
        rows_stack1 ex_stretch_1 ex_stretch_3 zeros_like_sel r)
  from this [of "Some (stack1 [1, 3])"] show ?thesis
    by (simp add: ReScale_fit_transform_def ex_check case_prod_beta)
      (simp add: ex_rescale_A_def)
qed








lemma ln_4: "ln (4 :: real) = 2 * ln 2"
  using ln_realpow [of "2 :: real" 2] by simp

lemma ln_half: "ln (1 / 2 :: real) = - ln 2"
  by (simp add: ln_div)

lemma ln_2_pos: "0 < ln (2 :: real)"
  by simp

lemma ex_mean_riemann:
  "mean_covariance geometry_1x1 ''riemann'' [mat1 1, mat1 4] = Inr (mat1 2)"
  by (simp add: geometry_1x1_def entry1_mat1 scalar_mean_def average_def ln_4)

lemma ex_dispersion_riemann:
  "dispersion_about geometry_1x1 ''riemann'' (mat1 2) [mat1 1, mat1 4] = Inr ((ln 2)\<^sup>2)"
  by (simp add: dispersion_about_def geometry_1x1_def entry1_mat1 scalar_distance_sq_def
      average_def ln_half)

lemma ex_stretch_riemann_1:
  "stretch geometry_1x1 ''riemann'' (mat1 2) ((ln 2)\<^sup>2) (mat1 1) = Inr (mat1 (2 * exp (- 1)))"
  by (simp add: stretch_1x1 powr_def ln_half)

lemma ex_stretch_riemann_4:
  "stretch geometry_1x1 ''riemann'' (mat1 2) ((ln 2)\<^sup>2) (mat1 4) = Inr (mat1 (2 * exp 1))"
  by (simp add: stretch_1x1 powr_def)

lemma exp_1_gt_2: "2 < exp (1 :: real)"
  using exp_lower_Taylor_quadratic [of "1 :: real"] by simp

lemma ex_stretched_differs: "stack1 [2 * exp (- 1), 2 * exp 1] \<noteq> stack1 [1, 4]"
  using exp_1_gt_2 by (simp add: stack1_def)

lemma ex_ReScale_transform_riemann:
  "ReScale_transform geometry_1x1 ex_rescale_riemann (Ndarray (stack1 [1, 4])) None =
     Inr (stack1 [2 * exp (- 1), 2 * exp 1],
          ex_rescale_riemann\<lparr>re_scale' :=
            Some \<lparr>tls_target_domain = ''target_domain'', tls_centered_data = False,
                  tls_metric = ''riemann'',
                  tls_means = Some [(''target_domain'', mat1 2)],
                  tls_dispersions = Some [(''target_domain'', (ln 2)\<^sup>2)]\<rparr>\<rparr>)"
proof -
  let ?rs = "\<lparr>tls_target_domain = ''target_domain'', tls_centered_data = False,
                  tls_metric = ''riemann'',
                  tls_means = Some [(''target_domain'', mat1 2)],
                  tls_dispersions = Some [(''target_domain'', (ln 2)\<^sup>2)]\<rparr>"
  have sh: "shape (stack1 [1, 4]) = 2 # [1, 1]" by (simp add: shape_stack1)
  have f: "TLStretch_fit geometry_1x1 (new_TLStretch ''target_domain'' False ''riemann'')
             (Some (stack1 [1, 4])) [''target_domain/0'', ''target_domain/0''] = Inr ?rs"
    using TLStretch_fit_target [OF sh, of geometry_1x1 "''target_domain''" "''riemann''"]
    by (simp add: rows_stack1 ex_mean_riemann ex_dispersion_riemann eval_nat_numeral)
  have r: "restack (stack1 [1, 4]) [mat1 (2 * exp (- 1)), mat1 (2 * exp 1)] =
             stack1 [2 * exp (- 1), 2 * exp 1]"
    using restack_stack1 [of "[2 * exp (- 1), 2 * exp 1]" "[1, 4]"] by simp
  have t: "TLStretch_transform geometry_1x1 ?rs (Some (stack1 [1, 4])) =
             Inr (stack1 [2 * exp (- 1), 2 * exp 1])"
    by (simp add: TLStretch_transform_def attr_def lookup_def rows_stack1
        ex_stretch_riemann_1 ex_stretch_riemann_4 r)
  have e: "metric ex_rescale_riemann = ''riemann''" by (simp add: ex_rescale_riemann_def)
  show ?thesis
    by (simp add: ReScale_transform_unfold ex_check n_samples_def shape_at_def ndim_def
        shape_stack1 e f t)
qed

section \<open>Re-centering\<close>

text \<open>
  Claim C1. \<open>ReCenter.transform(X)\<close> returns what the specification describes: the
  matrices of \<open>X\<close>, all taken as one domain, whitened by the mean computed from
  these same matrices in this call. The value depends on \<open>X\<close> and on the metric
  the instance was constructed with, and on nothing else: it is the same whatever
  \<open>re_center_\<close> and \<open>means_\<close> earlier calls of \<open>fit\<close> or \<open>transform\<close> left in the
  instance, and the same when they were never set.
\<close>

theorem ReCenter_transform_fresh:
  "returned (ReCenter_transform G self X y) =
     (case check_data X of
        Inl e \<Rightarrow> Inl e
      | Inr None \<Rightarrow> Inl AttributeError
      | Inr (Some a) \<Rightarrow> recenter_as_one_domain G (metric self) a) \<and>
   returned (ReCenter_transform G (self\<lparr>re_center' := rc, means' := ms\<rparr>) X y) =
     returned (ReCenter_transform G (self\<lparr>re_center' := None, means' := None\<rparr>) X y)"
  by (simp add: ReCenter_transform_returned cong: sum.case_cong option.case_cong)

theorem ReCenter_transform_fresh_witness:
  "returned (ReCenter_transform geometry_1x1
      (ex_recenter\<lparr>re_center' := Some (ex_tlcenter ex_means), means' := Some ex_means\<rparr>)
      (Ndarray (stack1 [2, 6])) None) = Inr (stack1 [1 / 2, 3 / 2]) \<and>
   returned (ReCenter_transform geometry_1x1
      (ex_recenter\<lparr>re_center' := None, means' := None\<rparr>)
      (Ndarray (stack1 [2, 6])) None) = Inr (stack1 [1 / 2, 3 / 2])"
  using ReCenter_transform_fresh [where G = geometry_1x1 and self = ex_recenter
          and X = "Ndarray (stack1 [2, 6])" and y = None
          and rc = "Some (ex_tlcenter ex_means)" and ms = "Some ex_means"]
    recenter_one_1x1 [of "[2, 6]"]
  by (simp add: ex_check ex_recenter_def average_def)




text \<open>
  Claim C6. The value \<open>transform(X, y)\<close> returns, for \<open>ReCenter\<close> and for \<open>ReScale\<close>,
  is the same for every \<open>y\<close> and for every \<open>domains\<close> the instance was constructed
  with: the keys are built from \<open>n\<close> placeholder labels and \<open>n\<close> copies of the tag
  \<open>target_domain\<close>, this construction succeeds, and every key decodes to the domain
  \<open>target_domain\<close>.
\<close>

theorem transform_ignores_labels_and_domains:
  "returned (ReCenter_transform G (self\<lparr>domains := ds\<rparr>) X y) =
     returned (ReCenter_transform G self X y') \<and>
   returned (ReScale_transform G (self2\<lparr>domains := ds2\<rparr>) X y) =
     returned (ReScale_transform G self2 X y') \<and>
   encode_domains Z (replicate n ''0'') (replicate n ''target_domain'') =
     (Z, replicate n ''target_domain/0'') \<and>
   decode_domains (replicate n ''target_domain/0'') = Inr (replicate n ''target_domain'')"
  by (simp add: ReScale_transform_returned ReCenter_transform_returned encode_target decode_target
      cong: sum.case_cong option.case_cong)

theorem transform_ignores_labels_and_domains_witness:
  "returned (ReCenter_transform geometry_1x1 (ex_recenter\<lparr>domains := []\<rparr>) (Ndarray ex_stack)
      (Some ex_labels)) = Inr (stack1 [1 / 5, 3 / 5, 4 / 5, 12 / 5]) \<and>
   returned (ReCenter_transform geometry_1x1 ex_recenter (Ndarray ex_stack) None) =
      Inr (stack1 [1 / 5, 3 / 5, 4 / 5, 12 / 5]) \<and>
   returned (ReScale_transform geometry_1x1 (ex_rescale\<lparr>domains := []\<rparr>) (Ndarray (stack1 [1, 3]))
      (Some [''0'', ''1''])) = Inr (stack1 [1, 3]) \<and>
   returned (ReScale_transform geometry_1x1 ex_rescale (Ndarray (stack1 [1, 3])) None) =
      Inr (stack1 [1, 3]) \<and>
   decode_domains (replicate 4 ''target_domain/0'') = Inr (replicate 4 ''target_domain'')"
proof -
  have c: "returned (ReCenter_transform geometry_1x1 ex_recenter (Ndarray ex_stack) None) =
             Inr (stack1 [1 / 5, 3 / 5, 4 / 5, 12 / 5])"
    using ex_transform [of ex_recenter None] by (simp add: ex_recenter_def returned_def)
  have s: "returned (ReScale_transform geometry_1x1 ex_rescale (Ndarray (stack1 [1, 3])) None) =
             Inr (stack1 [1, 3])"
    using ex_rescale_one by (simp add: ReScale_transform_returned ex_check ex_rescale_def)
  show ?thesis
    using transform_ignores_labels_and_domains [where G = geometry_1x1 and self = ex_recenter
          and ds = "[]" and X = "Ndarray ex_stack" and y = "Some ex_labels" and y' = None
          and ?self2.0 = ex_rescale and ?ds2.0 = "[]" and Z = "()" and n = 4]
      transform_ignores_labels_and_domains [where G = geometry_1x1 and self = ex_recenter
          and ds = "[]" and X = "Ndarray (stack1 [1, 3])" and y = "Some [''0'', ''1'']"
          and y' = None and ?self2.0 = ex_rescale and ?ds2.0 = "[]" and Z = "()" and n = 4]
      c s
    by simp
qed

section \<open>Re-scaling\<close>

text \<open>
  Claim C8. \<open>ReScale.transform(X)\<close> is two calls on a fresh estimator: \<open>fit\<close> on \<open>X\<close>
  with every sample keyed as the target domain, then \<open>transform\<close> of \<open>X\<close> by the
  estimator just fitted; the value it returns is \<open>X\<close> rescaled by the dispersion
  computed from \<open>X\<close> in this call. \<open>ReScale.fit\<close> calls the estimator's \<open>fit\<close> only
  and returns the instance. Whenever \<open>transform\<close> returns, the stack it returns has
  the shape of \<open>X\<close> and holds, in order, the image of every matrix of \<open>X\<close> under the
  rescaling about the mean of \<open>X\<close> by the dispersion of \<open>X\<close> about that mean, and the
  estimator it leaves in \<open>re_scale_\<close> holds exactly that mean and that dispersion.
\<close>

theorem ReScale_transform_two_steps:
  "ReScale_transform G self X y =
     (case check_data X of
        Inl e \<Rightarrow> Inl e
      | Inr X' \<Rightarrow>
          (case n_samples X' of
             Inl e \<Rightarrow> Inl e
           | Inr n \<Rightarrow>
               (case TLStretch_fit G (new_TLStretch ''target_domain'' False (metric self)) X'
                       (replicate n ''target_domain/0'') of
                  Inl e \<Rightarrow> Inl e
                | Inr rs \<Rightarrow>
                    (case TLStretch_transform G rs X' of
                       Inl e \<Rightarrow> Inl e
                     | Inr X_str \<Rightarrow> Inr (X_str, self\<lparr>re_scale' := Some rs\<rparr>))))) \<and>
   returned (ReScale_transform G self X y) =
     (case check_data X of
        Inl e \<Rightarrow> Inl e
      | Inr None \<Rightarrow> Inl AttributeError
      | Inr (Some a) \<Rightarrow> rescale_as_one_domain G (metric self) a) \<and>
   ReScale_fit G self X labels =
     (case check_data X of
        Inl e \<Rightarrow> Inl e
      | Inr X' \<Rightarrow>
          (case TLStretch_fit G (new_TLStretch ''target_domain'' False (metric self)) X'
                  (snd (encode_domains X' labels (domains self))) of
             Inl e \<Rightarrow> Inl e
           | Inr rs \<Rightarrow> Inr (self\<lparr>re_scale' := Some rs, dispersions' := tls_dispersions rs\<rparr>))) \<and>
   (\<forall>a Y s. check_data X = Inr (Some a) \<and> ReScale_transform G self X y = Inr (Y, s) \<longrightarrow>
      (\<exists>M v out.
         mean_covariance G (metric self) (rows a) = Inr M \<and>
         dispersion_about G (metric self) M (rows a) = Inr v \<and>
         list_all2 (\<lambda>S R. stretch G (metric self) M v S = Inr R) (rows a) out \<and>
         dtype Y = dtype a \<and> shape Y = shape a \<and> flat Y = concat (map flat out) \<and>
         s = self\<lparr>re_scale' :=
                   Some \<lparr>tls_target_domain = ''target_domain'', tls_centered_data = False,
                         tls_metric = metric self,
                         tls_means = Some [(''target_domain'', M)],
                         tls_dispersions = Some [(''target_domain'', v)]\<rparr>\<rparr>))"
proof -
  have "ReScale_fit G self X labels =
     (case check_data X of
        Inl e \<Rightarrow> Inl e
      | Inr X' \<Rightarrow>
          (case TLStretch_fit G (new_TLStretch ''target_domain'' False (metric self)) X'
                  (snd (encode_domains X' labels (domains self))) of
             Inl e \<Rightarrow> Inl e
           | Inr rs \<Rightarrow> Inr (self\<lparr>re_scale' := Some rs, dispersions' := tls_dispersions rs\<rparr>)))"
    by (simp add: ReScale_fit_def split: sum.splits prod.splits)
  then show ?thesis
    using ReScale_transform_unfold [of G self X y] ReScale_transform_returned [of G self X y]
      ReScale_transform_Inr [of X _ G self y]
    by blast
qed

theorem ReScale_transform_two_steps_witness:
  "ReScale_transform geometry_1x1 ex_rescale_riemann (Ndarray (stack1 [1, 4])) None =
     Inr (stack1 [2 * exp (- 1), 2 * exp 1],
          ex_rescale_riemann\<lparr>re_scale' :=
            Some \<lparr>tls_target_domain = ''target_domain'', tls_centered_data = False,
                  tls_metric = ''riemann'',
                  tls_means = Some [(''target_domain'', mat1 2)],
                  tls_dispersions = Some [(''target_domain'', (ln 2)\<^sup>2)]\<rparr>\<rparr>) \<and>
   rescale_as_one_domain geometry_1x1 ''riemann'' (stack1 [1, 4]) =
     Inr (stack1 [2 * exp (- 1), 2 * exp 1]) \<and>
   stack1 [2 * exp (- 1), 2 * exp 1] \<noteq> stack1 [1, 4] \<and>
   rows (stack1 [1, 4]) = [mat1 1, mat1 4] \<and>
   mean_covariance geometry_1x1 ''riemann'' [mat1 1, mat1 4] = Inr (mat1 2) \<and>
   dispersion_about geometry_1x1 ''riemann'' (mat1 2) [mat1 1, mat1 4] = Inr ((ln 2)\<^sup>2) \<and>
   stretch geometry_1x1 ''riemann'' (mat1 2) ((ln 2)\<^sup>2) (mat1 1) = Inr (mat1 (2 * exp (- 1))) \<and>
   stretch geometry_1x1 ''riemann'' (mat1 2) ((ln 2)\<^sup>2) (mat1 4) = Inr (mat1 (2 * exp 1)) \<and>
   (\<exists>M v out.
      mean_covariance geometry_1x1 ''riemann'' (rows (stack1 [1, 4])) = Inr M \<and>
      dispersion_about geometry_1x1 ''riemann'' M (rows (stack1 [1, 4])) = Inr v \<and>
      list_all2 (\<lambda>S R. stretch geometry_1x1 ''riemann'' M v S = Inr R)
        (rows (stack1 [1, 4])) out \<and>
      flat (stack1 [2 * exp (- 1), 2 * exp 1]) = concat (map flat out))"
proof -
  have e: "metric ex_rescale_riemann = ''riemann''" by (simp add: ex_rescale_riemann_def)
  have c: "check_data (Ndarray (stack1 [1, 4])) = Inr (Some (stack1 [1, 4]))"
    by (rule ex_check)
  have r: "rows (stack1 [1, 4]) = [mat1 1, mat1 4]" by (simp add: rows_stack1)
  have "returned (ReScale_transform geometry_1x1 ex_rescale_riemann (Ndarray (stack1 [1, 4])) None) =
          rescale_as_one_domain geometry_1x1 ''riemann'' (stack1 [1, 4])"
    using ReScale_transform_two_steps [where G = geometry_1x1 and self = ex_rescale_riemann
            and X = "Ndarray (stack1 [1, 4])" and y = None and labels = "[]",
            THEN conjunct2, THEN conjunct1]
    by (simp add: c e)
  then have one: "rescale_as_one_domain geometry_1x1 ''riemann'' (stack1 [1, 4]) =
                    Inr (stack1 [2 * exp (- 1), 2 * exp 1])"
    by (simp add: ex_ReScale_transform_riemann returned_def)
  have four: "\<exists>M v out.
      mean_covariance geometry_1x1 ''riemann'' (rows (stack1 [1, 4])) = Inr M \<and>
      dispersion_about geometry_1x1 ''riemann'' M (rows (stack1 [1, 4])) = Inr v \<and>
      list_all2 (\<lambda>S R. stretch geometry_1x1 ''riemann'' M v S = Inr R)
        (rows (stack1 [1, 4])) out \<and>
      flat (stack1 [2 * exp (- 1), 2 * exp 1]) = concat (map flat out)"
    using ReScale_transform_two_steps [where G = geometry_1x1 and self = ex_rescale_riemann
            and X = "Ndarray (stack1 [1, 4])" and y = None and labels = "[]",
            THEN conjunct2, THEN conjunct2, THEN conjunct2, rule_format,
            OF conjI, OF c ex_ReScale_transform_riemann]
    unfolding e by blast
  show ?thesis
    using four ex_ReScale_transform_riemann one ex_stretched_differs r ex_mean_riemann
      ex_dispersion_riemann ex_stretch_riemann_1 ex_stretch_riemann_4
    by blast
qed

text \<open>
  Claim C2, as amended. \<open>ReScale.fit(X, y)\<close> fits the estimator configured with
  \<open>centered_data=False\<close>: for every domain decoded from the keys it computes the
  mean of the domain's matrices and stores, as the domain's dispersion, the
  average squared distance of these matrices to that mean. The input is not
  assumed centered and the identity is not the reference point. The dispersions
  are stored in \<open>dispersions_\<close>, one per domain, and the call returns the instance,
  not a transformed \<open>X\<close>.
\<close>

theorem ReScale_fit_dispersions:
  assumes "ReScale_fit G self X y = Inr self'"
  shows "\<exists>X' doms rs disps.
           check_data X = Inr X' \<and>
           decode_domains (snd (encode_domains X' y (domains self))) = Inr doms \<and>
           self' = self\<lparr>re_scale' := Some rs, dispersions' := Some disps\<rparr> \<and>
           tls_dispersions rs = Some disps \<and> tls_centered_data rs = False \<and>
           map fst disps = np_unique doms \<and>
           (\<forall>d\<in>set doms. \<exists>sub v.
              mask_rows X' (map (\<lambda>x. x = d) doms) = Inr sub \<and>
              dispersion_about_mean G (metric self) sub = Inr v \<and>
              map_of disps d = Some v)"
proof -
  let ?new = "new_TLStretch ''target_domain'' False (metric self)"
  obtain X' rs where X': "check_data X = Inr X'"
    and rs: "TLStretch_fit G ?new X' (snd (encode_domains X' y (domains self))) = Inr rs"
    and s': "self' = self\<lparr>re_scale' := Some rs, dispersions' := tls_dispersions rs\<rparr>"
    using assms by (auto simp: ReScale_fit_def case_prod_beta split: sum.splits)
  obtain doms stats where dec: "decode_domains (snd (encode_domains X' y (domains self))) = Inr doms"
    and rs_eq: "rs = ?new\<lparr>tls_means := Some (map (\<lambda>(d, M, v). (d, M)) stats),
                          tls_dispersions := Some (map (\<lambda>(d, M, v). (d, v)) stats)\<rparr>"
    and all2: "list_all2 (\<lambda>d p. domain_dispersion G False (metric self) X' doms d = Inr p)
                 (np_unique doms) stats"
    using TLStretch_fit_Inr [OF rs] by (auto simp: new_TLStretch_def)
  let ?disps = "map (\<lambda>(d, M, v). (d, v)) stats"
  have 1: "tls_dispersions rs = Some ?disps" "tls_centered_data rs = False"
    using rs_eq by (simp_all add: new_TLStretch_def)
  have 2: "map fst ?disps = np_unique doms"
    using domain_dispersions_keys [OF all2] .
  have 3: "\<forall>d\<in>set doms. \<exists>sub v.
              mask_rows X' (map (\<lambda>x. x = d) doms) = Inr sub \<and>
              dispersion_about_mean G (metric self) sub = Inr v \<and>
              map_of ?disps d = Some v"
    using domain_dispersions_map_of [OF all2] by (simp add: np_unique_set)
  have 4: "self' = self\<lparr>re_scale' := Some rs, dispersions' := Some ?disps\<rparr>"
    using s' 1 by simp
  show ?thesis
    using X' dec 4 1 2 3
    by (intro exI [of _ X'] exI [of _ doms] exI [of _ rs] exI [of _ ?disps]) simp
qed

theorem ReScale_fit_dispersions_witness:
  "ReScale_fit geometry_1x1 ex_rescale (Ndarray ex_stack) ex_labels =
     Inr (ex_rescale\<lparr>re_scale' := Some (ex_tlstretch ex_means ex_dispersions),
                     dispersions' := Some ex_dispersions\<rparr>) \<and>
   (\<exists>X' doms rs disps.
      check_data (Ndarray ex_stack) = Inr X' \<and>
      decode_domains (snd (encode_domains X' ex_labels (domains ex_rescale))) = Inr doms \<and>
      ex_rescale\<lparr>re_scale' := Some (ex_tlstretch ex_means ex_dispersions),
                 dispersions' := Some ex_dispersions\<rparr> =
        ex_rescale\<lparr>re_scale' := Some rs, dispersions' := Some disps\<rparr> \<and>
      tls_dispersions rs = Some disps \<and> tls_centered_data rs = False \<and>
      map fst disps = np_unique doms \<and>
      (\<forall>d\<in>set doms. \<exists>sub v.
         mask_rows X' (map (\<lambda>x. x = d) doms) = Inr sub \<and>
         dispersion_about_mean geometry_1x1 (metric ex_rescale) sub = Inr v \<and>
         map_of disps d = Some v))"
  using ReScale_fit_dispersions [OF ex_ReScale_fit] ex_ReScale_fit by simp

text \<open>
  Claim C2 as stated fails: for the stack \<open>[1, 3, 4, 12]\<close> with the domains
  \<open>A, A, B, B\<close> under the Euclidean metric, the matrices of domain \<open>A\<close> are \<open>[1]\<close> and
  \<open>[3]\<close>; their average squared distance to the identity is 2, and the dispersion
  that \<open>fit\<close> stores for \<open>A\<close> is 1, their average squared distance to their mean.
\<close>

theorem ReScale_fit_not_about_identity:
  "ReScale_fit geometry_1x1 ex_rescale (Ndarray ex_stack) ex_labels =
     Inr (ex_rescale\<lparr>re_scale' := Some (ex_tlstretch ex_means [(''A'', 1), (''B'', 16)]),
                     dispersions' := Some [(''A'', 1), (''B'', 16)]\<rparr>) \<and>
   mask_rows (Some ex_stack) [True, True, False, False] = Inr [mat1 1, mat1 3] \<and>
   dispersion_about_identity geometry_1x1 ''euclid'' 1 [mat1 1, mat1 3] = Inr 2 \<and>
   dispersion_about_mean geometry_1x1 ''euclid'' [mat1 1, mat1 3] = Inr 1"
proof -
  have "dispersion_about_identity geometry_1x1 ''euclid'' 1 [mat1 1, mat1 3] = Inr 2"
    by (simp add: dispersion_about_identity_def eye_1 dispersion_about_def distance_1x1
        average_def)
  moreover have "dispersion_about_mean geometry_1x1 ''euclid'' [mat1 1, mat1 3] = Inr 1"
    by (simp add: dispersion_about_mean_def ex_mean_A ex_dispersion_A)
  moreover have "mask_rows (Some ex_stack) [True, True, False, False] = Inr [mat1 1, mat1 3]"
    by (simp add: ex_stack_def ex_mask_A)
  ultimately show ?thesis
    using ex_ReScale_fit by (simp add: ex_dispersions_def)
qed

section \<open>What a call stores in the instance\<close>

text \<open>
  Claim C3, as amended. \<open>fit\<close> assigns both \<open>re_center_\<close> and \<open>means_\<close> (for
  \<open>ReScale\<close>: \<open>re_scale_\<close> and \<open>dispersions_\<close>): the estimator fitted in this call and
  its statistics, whatever the attributes held before. \<open>transform\<close> and
  \<open>fit_transform\<close> assign \<open>re_center_\<close> (\<open>re_scale_\<close>) only, the estimator fitted in this
  call; they leave \<open>means_\<close> (\<open>dispersions_\<close>) as it was.
\<close>

theorem stored_statistics_written:
  "(ReCenter_fit G c X y = Inr c' \<longrightarrow>
      (\<exists>X' t. check_data X = Inr X' \<and>
         TLCenter_fit G (new_TLCenter ''target_domain'' (metric c)) X'
           (snd (encode_domains X' y (domains c))) = Inr t \<and>
         c' = c\<lparr>re_center' := Some t, means' := tlc_recenter t\<rparr>)) \<and>
   (ReCenter_transform G c X y' = Inr (Y, c') \<longrightarrow>
      means' c' = means' c \<and>
      (\<exists>X' n t. check_data X = Inr X' \<and> n_samples X' = Inr n \<and>
         TLCenter_fit_transform G (new_TLCenter ''target_domain'' (metric c)) X'
           (replicate n ''target_domain/0'') = Inr (Y, t) \<and>
         c' = c\<lparr>re_center' := Some t\<rparr>)) \<and>
   (ReCenter_fit_transform G c X y = Inr (Y, c') \<longrightarrow>
      means' c' = means' c \<and>
      (\<exists>X' t. check_data X = Inr X' \<and>
         TLCenter_fit_transform G (new_TLCenter ''target_domain'' (metric c)) X'
           (snd (encode_domains X' y (domains c))) = Inr (Y, t) \<and>
         c' = c\<lparr>re_center' := Some t\<rparr>)) \<and>
   (ReScale_fit G s X y = Inr s' \<longrightarrow>
      (\<exists>X' t. check_data X = Inr X' \<and>
         TLStretch_fit G (new_TLStretch ''target_domain'' False (metric s)) X'
           (snd (encode_domains X' y (domains s))) = Inr t \<and>
         s' = s\<lparr>re_scale' := Some t, dispersions' := tls_dispersions t\<rparr>)) \<and>
   (ReScale_transform G s X y' = Inr (Y, s') \<longrightarrow>
      dispersions' s' = dispersions' s \<and>
      (\<exists>X' n t. check_data X = Inr X' \<and> n_samples X' = Inr n \<and>
         TLStretch_fit G (new_TLStretch ''target_domain'' False (metric s)) X'
           (replicate n ''target_domain/0'') = Inr t \<and>
         TLStretch_transform G t X' = Inr Y \<and>
         s' = s\<lparr>re_scale' := Some t\<rparr>)) \<and>
   (ReScale_fit_transform G s X y = Inr (Y, s') \<longrightarrow>
      dispersions' s' = dispersions' s \<and>
      (\<exists>X' t. check_data X = Inr X' \<and>
         TLStretch_fit_transform G (new_TLStretch ''target_domain'' False (metric s)) X'
           (snd (encode_domains X' y (domains s))) = Inr (Y, t) \<and>
         s' = s\<lparr>re_scale' := Some t\<rparr>))"
proof (intro conjI impI)
  assume "ReCenter_fit G c X y = Inr c'"
  then show "\<exists>X' t. check_data X = Inr X' \<and>
         TLCenter_fit G (new_TLCenter ''target_domain'' (metric c)) X'
           (snd (encode_domains X' y (domains c))) = Inr t \<and>
         c' = c\<lparr>re_center' := Some t, means' := tlc_recenter t\<rparr>"
    by (auto simp: ReCenter_fit_def case_prod_beta split: sum.splits)
next
  assume a: "ReCenter_transform G c X y' = Inr (Y, c')"
  then show "\<exists>X' n t. check_data X = Inr X' \<and> n_samples X' = Inr n \<and>
         TLCenter_fit_transform G (new_TLCenter ''target_domain'' (metric c)) X'
           (replicate n ''target_domain/0'') = Inr (Y, t) \<and>
         c' = c\<lparr>re_center' := Some t\<rparr>"
    by (auto simp: ReCenter_transform_def encode_target split: sum.splits)
  then show "means' c' = means' c" by auto
next
  assume a: "ReCenter_fit_transform G c X y = Inr (Y, c')"
  then show "\<exists>X' t. check_data X = Inr X' \<and>
         TLCenter_fit_transform G (new_TLCenter ''target_domain'' (metric c)) X'
           (snd (encode_domains X' y (domains c))) = Inr (Y, t) \<and>
         c' = c\<lparr>re_center' := Some t\<rparr>"
    by (auto simp: ReCenter_fit_transform_def case_prod_beta split: sum.splits)
  then show "means' c' = means' c" by auto
next
  assume "ReScale_fit G s X y = Inr s'"
  then show "\<exists>X' t. check_data X = Inr X' \<and>
         TLStretch_fit G (new_TLStretch ''target_domain'' False (metric s)) X'
           (snd (encode_domains X' y (domains s))) = Inr t \<and>
         s' = s\<lparr>re_scale' := Some t, dispersions' := tls_dispersions t\<rparr>"
    by (auto simp: ReScale_fit_def case_prod_beta split: sum.splits)
next
  assume a: "ReScale_transform G s X y' = Inr (Y, s')"
  then show "\<exists>X' n t. check_data X = Inr X' \<and> n_samples X' = Inr n \<and>
         TLStretch_fit G (new_TLStretch ''target_domain'' False (metric s)) X'
           (replicate n ''target_domain/0'') = Inr t \<and>
         TLStretch_transform G t X' = Inr Y \<and>
         s' = s\<lparr>re_scale' := Some t\<rparr>"
    by (auto simp: ReScale_transform_unfold split: sum.splits)
  then show "dispersions' s' = dispersions' s" by auto
next
  assume a: "ReScale_fit_transform G s X y = Inr (Y, s')"
  then show "\<exists>X' t. check_data X = Inr X' \<and>
         TLStretch_fit_transform G (new_TLStretch ''target_domain'' False (metric s)) X'
           (snd (encode_domains X' y (domains s))) = Inr (Y, t) \<and>
         s' = s\<lparr>re_scale' := Some t\<rparr>"
    by (auto simp: ReScale_fit_transform_def case_prod_beta split: sum.splits)
  then show "dispersions' s' = dispersions' s" by auto
qed

theorem stored_statistics_written_witness:
  "ReCenter_fit geometry_1x1 ex_recenter (Ndarray ex_stack) ex_labels = Inr ex_recenter_fitted \<and>
   (\<exists>X' t. check_data (Ndarray ex_stack) = Inr X' \<and>
      TLCenter_fit geometry_1x1 (new_TLCenter ''target_domain'' (metric ex_recenter)) X'
        (snd (encode_domains X' ex_labels (domains ex_recenter))) = Inr t \<and>
      ex_recenter_fitted = ex_recenter\<lparr>re_center' := Some t, means' := tlc_recenter t\<rparr>) \<and>
   ReCenter_transform geometry_1x1 ex_recenter_fitted (Ndarray (stack1 [2, 6])) None =
     Inr (stack1 [1 / 2, 3 / 2],
          ex_recenter_fitted\<lparr>re_center' := Some (ex_tlcenter [(''target_domain'', mat1 4)])\<rparr>) \<and>
   means' (ex_recenter_fitted\<lparr>re_center' := Some (ex_tlcenter [(''target_domain'', mat1 4)])\<rparr>) =
     means' ex_recenter_fitted \<and>
   ReCenter_fit_transform geometry_1x1 ex_recenter (Ndarray ex_stack) ex_labels =
     Inr (stack1 [1 / 2, 3 / 2, 1 / 2, 3 / 2],
          ex_recenter\<lparr>re_center' := Some (ex_tlcenter ex_means)\<rparr>) \<and>
   means' (ex_recenter\<lparr>re_center' := Some (ex_tlcenter ex_means)\<rparr>) = means' ex_recenter \<and>
   ReScale_fit geometry_1x1 ex_rescale (Ndarray ex_stack) ex_labels =
     Inr (ex_rescale\<lparr>re_scale' := Some (ex_tlstretch ex_means ex_dispersions),
                     dispersions' := Some ex_dispersions\<rparr>) \<and>
   (\<exists>X' t. check_data (Ndarray ex_stack) = Inr X' \<and>
      TLStretch_fit geometry_1x1 (new_TLStretch ''target_domain'' False (metric ex_rescale)) X'
        (snd (encode_domains X' ex_labels (domains ex_rescale))) = Inr t \<and>
      ex_rescale\<lparr>re_scale' := Some (ex_tlstretch ex_means ex_dispersions),
                 dispersions' := Some ex_dispersions\<rparr> =
        ex_rescale\<lparr>re_scale' := Some t, dispersions' := tls_dispersions t\<rparr>) \<and>
   ReScale_transform geometry_1x1 ex_rescale (Ndarray (stack1 [1, 3])) None =
     Inr (stack1 [1, 3], ex_rescale\<lparr>re_scale' := Some ex_tlstretch_one\<rparr>) \<and>
   dispersions' (ex_rescale\<lparr>re_scale' := Some ex_tlstretch_one\<rparr>) = dispersions' ex_rescale \<and>
   ReScale_fit_transform geometry_1x1 ex_rescale_A (Ndarray (stack1 [1, 3])) [''0'', ''1''] =
     Inr (stack1 [1, 3],
          ex_rescale_A\<lparr>re_scale' := Some (ex_tlstretch [(''A'', mat1 2)] [(''A'', 1)])\<rparr>) \<and>
   dispersions' (ex_rescale_A\<lparr>re_scale' := Some (ex_tlstretch [(''A'', mat1 2)] [(''A'', 1)])\<rparr>) =
     dispersions' ex_rescale_A"
proof -
  have h1: "ReCenter_fit geometry_1x1 ex_recenter (Ndarray ex_stack) ex_labels =
              Inr ex_recenter_fitted"
    using ex_fit_full by (simp add: ex_recenter_fitted_def)
  note T = stored_statistics_written
  have c1: "\<exists>X' t. check_data (Ndarray ex_stack) = Inr X' \<and>
      TLCenter_fit geometry_1x1 (new_TLCenter ''target_domain'' (metric ex_recenter)) X'
        (snd (encode_domains X' ex_labels (domains ex_recenter))) = Inr t \<and>
      ex_recenter_fitted = ex_recenter\<lparr>re_center' := Some t, means' := tlc_recenter t\<rparr>"
    using T [where G = geometry_1x1 and c = ex_recenter and X = "Ndarray ex_stack"
        and y = ex_labels and c' = ex_recenter_fitted] h1 by blast
  have c2: "means' (ex_recenter_fitted\<lparr>re_center' := Some (ex_tlcenter [(''target_domain'', mat1 4)])\<rparr>) =
     means' ex_recenter_fitted"
    using T [where G = geometry_1x1 and c = ex_recenter_fitted and X = "Ndarray (stack1 [2, 6])"
        and y' = None and Y = "stack1 [1 / 2, 3 / 2]"
        and c' = "ex_recenter_fitted\<lparr>re_center' := Some (ex_tlcenter [(''target_domain'', mat1 4)])\<rparr>"]
      ex_transform_after_fit by blast
  have c3: "means' (ex_recenter\<lparr>re_center' := Some (ex_tlcenter ex_means)\<rparr>) = means' ex_recenter"
    using T [where G = geometry_1x1 and c = ex_recenter and X = "Ndarray ex_stack"
        and y = ex_labels and Y = "stack1 [1 / 2, 3 / 2, 1 / 2, 3 / 2]"
        and c' = "ex_recenter\<lparr>re_center' := Some (ex_tlcenter ex_means)\<rparr>"]
      ex_fit_transform_full by blast
  have c4: "\<exists>X' t. check_data (Ndarray ex_stack) = Inr X' \<and>
      TLStretch_fit geometry_1x1 (new_TLStretch ''target_domain'' False (metric ex_rescale)) X'
        (snd (encode_domains X' ex_labels (domains ex_rescale))) = Inr t \<and>
      ex_rescale\<lparr>re_scale' := Some (ex_tlstretch ex_means ex_dispersions),
                 dispersions' := Some ex_dispersions\<rparr> =
        ex_rescale\<lparr>re_scale' := Some t, dispersions' := tls_dispersions t\<rparr>"
    using T [where G = geometry_1x1 and s = ex_rescale and X = "Ndarray ex_stack"
        and y = ex_labels
        and s' = "ex_rescale\<lparr>re_scale' := Some (ex_tlstretch ex_means ex_dispersions),
                             dispersions' := Some ex_dispersions\<rparr>"]
      ex_ReScale_fit by blast
  have c5: "dispersions' (ex_rescale\<lparr>re_scale' := Some ex_tlstretch_one\<rparr>) =
              dispersions' ex_rescale"
    using T [where G = geometry_1x1 and s = ex_rescale and X = "Ndarray (stack1 [1, 3])"
        and y' = None and Y = "stack1 [1, 3]"
        and s' = "ex_rescale\<lparr>re_scale' := Some ex_tlstretch_one\<rparr>"]
      ex_ReScale_transform by blast
  have c6: "dispersions' (ex_rescale_A\<lparr>re_scale' := Some (ex_tlstretch [(''A'', mat1 2)] [(''A'', 1)])\<rparr>) =
     dispersions' ex_rescale_A"
    using T [where G = geometry_1x1 and s = ex_rescale_A and X = "Ndarray (stack1 [1, 3])"
        and y = "[''0'', ''1'']" and Y = "stack1 [1, 3]"
        and s' = "ex_rescale_A\<lparr>re_scale' := Some (ex_tlstretch [(''A'', mat1 2)] [(''A'', 1)])\<rparr>"]
      ex_ReScale_fit_transform by blast
  show ?thesis
    using h1 c1 ex_transform_after_fit c2 ex_fit_transform_full c3 ex_ReScale_fit c4
      ex_ReScale_transform c5 ex_ReScale_fit_transform c6
    by blast
qed

text \<open>
  Claim C3 as stated fails: after \<open>fit\<close> on the stack \<open>[1, 3, 4, 12]\<close> with the domains
  \<open>A, A, B, B\<close> and then \<open>transform\<close> on the stack \<open>[2, 6]\<close>, the attribute \<open>means_\<close> still
  holds the means 2 and 8 of the domains of the earlier \<open>fit\<close>, not the mean 4
  that the \<open>transform\<close> call computed.
\<close>

theorem transform_keeps_means_of_fit:
  "ReCenter_fit geometry_1x1 ex_recenter (Ndarray ex_stack) ex_labels = Inr ex_recenter_fitted \<and>
   means' ex_recenter_fitted = Some [(''A'', mat1 2), (''B'', mat1 8)] \<and>
   ReCenter_transform geometry_1x1 ex_recenter_fitted (Ndarray (stack1 [2, 6])) None =
     Inr (stack1 [1 / 2, 3 / 2],
          ex_recenter_fitted\<lparr>re_center' := Some (ex_tlcenter [(''target_domain'', mat1 4)])\<rparr>) \<and>
   means' (ex_recenter_fitted\<lparr>re_center' := Some (ex_tlcenter [(''target_domain'', mat1 4)])\<rparr>) =
     Some [(''A'', mat1 2), (''B'', mat1 8)] \<and>
   Some [(''A'', mat1 2), (''B'', mat1 8)] \<noteq> tlc_recenter (ex_tlcenter [(''target_domain'', mat1 4)])"
  using ex_fit_full ex_transform_after_fit
  by (simp add: ex_recenter_fitted_def ex_means_def ex_tlcenter_def)

section \<open>Input that is not normalized\<close>

text \<open>
  Claim C9. For a table whose \<open>values\<close> are not object-typed, \<open>_check_data\<close>
  returns \<open>None\<close> and does not raise; the enclosing call goes on with \<open>None\<close> in place
  of the stack: \<open>fit\<close> and \<open>fit_transform\<close> hand \<open>None\<close> to the estimator, \<open>transform\<close>
  fails only at \<open>X.shape\<close> (AttributeError).
\<close>

theorem numeric_table_gives_None:
  assumes "dtype v \<noteq> Object"
  shows "check_data (DataFrame v) = Inr None \<and>
         ReCenter_fit G rc (DataFrame v) y =
           (case TLCenter_fit G (new_TLCenter ''target_domain'' (metric rc)) None
                   (snd (encode_domains (None :: real ndarray option) y (domains rc))) of
              Inl e \<Rightarrow> Inl e
            | Inr t \<Rightarrow> Inr (rc\<lparr>re_center' := Some t, means' := tlc_recenter t\<rparr>)) \<and>
         ReCenter_fit_transform G rc (DataFrame v) y =
           (case TLCenter_fit_transform G (new_TLCenter ''target_domain'' (metric rc)) None
                   (snd (encode_domains (None :: real ndarray option) y (domains rc))) of
              Inl e \<Rightarrow> Inl e
            | Inr (X_rct, t) \<Rightarrow> Inr (X_rct, rc\<lparr>re_center' := Some t\<rparr>)) \<and>
         ReCenter_transform G rc (DataFrame v) y' = Inl AttributeError \<and>
         ReScale_fit G rs (DataFrame v) y =
           (case TLStretch_fit G (new_TLStretch ''target_domain'' False (metric rs)) None
                   (snd (encode_domains (None :: real ndarray option) y (domains rs))) of
              Inl e \<Rightarrow> Inl e
            | Inr t \<Rightarrow> Inr (rs\<lparr>re_scale' := Some t, dispersions' := tls_dispersions t\<rparr>)) \<and>
         ReScale_fit_transform G rs (DataFrame v) y =
           (case TLStretch_fit_transform G (new_TLStretch ''target_domain'' False (metric rs)) None
                   (snd (encode_domains (None :: real ndarray option) y (domains rs))) of
              Inl e \<Rightarrow> Inl e
            | Inr (X_str, t) \<Rightarrow> Inr (X_str, rs\<lparr>re_scale' := Some t\<rparr>)) \<and>
         ReScale_transform G rs (DataFrame v) y' = Inl AttributeError"
proof -
  have c: "check_data (DataFrame v) = Inr None"
    using assms by (simp add: check_data_def)
  show ?thesis
    unfolding ReCenter_fit_def ReCenter_fit_transform_def ReCenter_transform_def
        ReScale_fit_def ReScale_fit_transform_def ReScale_transform_def c
    by (simp add: n_samples_def encode_domains_def)
qed

theorem numeric_table_gives_None_witness:
  "check_data (DataFrame ex_stack) = Inr None \<and>
   ReCenter_fit geometry_1x1 ex_recenter (DataFrame ex_stack) ex_labels = Inl TypeError \<and>
   ReCenter_transform geometry_1x1 ex_recenter (DataFrame ex_stack) None = Inl AttributeError \<and>
   ReScale_fit geometry_1x1 ex_rescale (DataFrame ex_stack) ex_labels = Inl TypeError \<and>
   ReScale_transform geometry_1x1 ex_rescale (DataFrame ex_stack) None = Inl AttributeError"
proof -
  have d: "dtype ex_stack \<noteq> Object" by (simp add: ex_stack_def stack1_def)
  have c: "TLCenter_fit geometry_1x1 tc None
             (snd (encode_domains X ex_labels [''A'', ''A'', ''B'', ''B''])) = Inl TypeError"
    for tc and X :: "real ndarray option"
    by (simp add: TLCenter_fit_def ex_keys ex_unique domain_mean_def mask_rows_def)
  have s: "TLStretch_fit geometry_1x1 ts None
             (snd (encode_domains X ex_labels [''A'', ''A'', ''B'', ''B''])) = Inl TypeError"
    for ts and X :: "real ndarray option"
    by (simp add: TLStretch_fit_def ex_keys ex_unique domain_dispersion_def mask_rows_def)
  have e: "domains ex_recenter = [''A'', ''A'', ''B'', ''B'']"
    "domains ex_rescale = [''A'', ''A'', ''B'', ''B'']"
    by (simp_all add: ex_recenter_def ex_rescale_def)
  show ?thesis
    using numeric_table_gives_None [OF d, where G = geometry_1x1 and rc = ex_recenter
      and y = ex_labels and y' = None and rs = ex_rescale]
    by (simp add: e c s)
qed

end
